theory Spec2Isabelle
  imports Complex_Main
begin

section \<open>Changes of the adapter API\<close>

text \<open>
  \<^verbatim>\<open>Change<T> = AdditionDiff<T> | ModificationDiff<T> | RemovalDiff<T>\<close>: the three
  diff shapes are declared in the dag package; a change is an object with an \<open>action\<close>
  tag and a \<open>data\<close> object whose \<open>before\<close> and \<open>after\<close> properties may be missing
  (\<open>undefined\<close> is \<open>None\<close>).
\<close>

datatype Action = Add | Modify | Remove

record 'a ChangeData =
  before :: "'a option"
  after :: "'a option"

record 'a Change =
  action :: Action
  data :: "'a ChangeData"

definition AdditionDiff :: "'a \<Rightarrow> 'a Change" where
  "AdditionDiff a = \<lparr>action = Add, data = \<lparr>before = None, after = Some a\<rparr>\<rparr>"

definition ModificationDiff :: "'a \<Rightarrow> 'a \<Rightarrow> 'a Change" where
  "ModificationDiff b a = \<lparr>action = Modify, data = \<lparr>before = Some b, after = Some a\<rparr>\<rparr>"

definition RemovalDiff :: "'a \<Rightarrow> 'a Change" where
  "RemovalDiff b = \<lparr>action = Remove, data = \<lparr>before = Some b, after = None\<rparr>\<rparr>"

definition getChangeElement :: "'a Change \<Rightarrow> 'a option" where
  "getChangeElement change =
     (if action change = Remove then before (data change) else after (data change))"


section \<open>Element identifiers and elements, as the workspace and the formatter see them\<close>

text \<open>
  The class \<open>ElemID\<close> belongs to the adapter API. The code below only reads
  \<open>adapter\<close>, \<open>getFullName()\<close> and the getter \<open>isConfig\<close> of an identifier, so an
  identifier is the record of these three observations; of an element only its
  \<open>elemID\<close> is read.
\<close>

record ElemID =
  adapter :: string
  getFullName :: string
  isConfig :: bool

record Element =
  elemID :: ElemID

text \<open>Reading a property of \<open>undefined\<close> throws a \<open>TypeError\<close>.\<close>

datatype js_error = TypeError


section \<open>The command line formatter\<close>

record PlanItem =
  parent :: "Element Change"

definition fullName :: "Element Change \<Rightarrow> js_error + string" where
  "fullName change =
     (case getChangeElement change of
        None \<Rightarrow> Inl TypeError
      | Some e \<Rightarrow> Inr (getFullName (elemID e)))"

definition planItemName :: "PlanItem \<Rightarrow> js_error + string" where
  "planItemName step = fullName (parent step)"

text \<open>
  Times are milliseconds since the epoch (\<open>Date.getTime()\<close>); the clock read by
  \<open>new Date()\<close> is the argument \<open>now\<close>. On integers of this size the floating point
  quotient rounds up to the exact ceiling.
\<close>

definition getElapsedTime :: "int \<Rightarrow> int \<Rightarrow> int" where
  "getElapsedTime now start = \<lceil>(of_int (now - start) :: rat) / 1000\<rceil>"

text \<open>The remainder operator of JavaScript truncates towards zero.\<close>

definition js_rem :: "int \<Rightarrow> int \<Rightarrow> int" where
  "js_rem a b = sgn a * (\<bar>a\<bar> mod \<bar>b\<bar>)"

text \<open>Template literals print an integer in decimal.\<close>

definition digit_char :: "nat \<Rightarrow> char" where
  "digit_char d = ''0123456789'' ! d"

fun show_nat :: "nat \<Rightarrow> string" where
  "show_nat n =
     (if n < 10 then [digit_char n] else show_nat (n div 10) @ [digit_char (n mod 10)])"

declare show_nat.simps [simp del]

definition show_int :: "int \<Rightarrow> string" where
  "show_int i = (if i < 0 then CHR ''-'' # show_nat (nat (- i)) else show_nat (nat i))"

text \<open>
  \<open>body\<close> is chalk's \<open>reset\<close>, and \<open>STARTACTION\<close>, \<open>ENDACTION\<close> are tables of the
  prompts module: all three are parameters. \<open>Math.ceil\<close> of an integer is the integer.
\<close>

definition createItemDoneOutput ::
  "(Action \<Rightarrow> string) \<Rightarrow> int \<Rightarrow> PlanItem \<Rightarrow> int \<Rightarrow> js_error + string" where
  "createItemDoneOutput ENDACTION now item startTime =
     (let elapsed = getElapsedTime now startTime in
      case planItemName item of
        Inl e \<Rightarrow> Inl e
      | Inr nm \<Rightarrow>
          Inr (nm @ '': '' @ ENDACTION (action (parent item)) @ '' ''
               @ ''completed after '' @ show_int elapsed @ ''s''))"

definition createActionInProgressOutput ::
  "(string \<Rightarrow> string) \<Rightarrow> (Action \<Rightarrow> string) \<Rightarrow> int \<Rightarrow> PlanItem \<Rightarrow> int
     \<Rightarrow> js_error + string" where
  "createActionInProgressOutput body STARTACTION now act start =
     (let elapsed = getElapsedTime now start;
          elapsedRound = js_rem (elapsed - elapsed) 5
      in case planItemName act of
           Inl e \<Rightarrow> Inl e
         | Inr nm \<Rightarrow>
             Inr (body (nm @ '': Still '' @ STARTACTION (action (parent act))
                        @ ''... ('' @ show_int elapsedRound @ ''s elapsed)'')))"


section \<open>The workspace\<close>

subsection \<open>Data\<close>

text \<open>
  Modelled from the spec: the parser and the validator are not among the sources.
  \<open>SourceRange\<close> and \<open>ParseError\<close> are the parser's types as section 6.1 gives them,
  and the classes of validation errors are the four kinds of section 4.3. Of a merge
  error and a validation error the workspace reads \<open>elemID\<close>, \<open>error\<close> and
  \<open>message\<close>, and of a validation error its class (for \<open>instanceof\<close>).
\<close>

record SourcePos =
  line :: nat
  col :: nat
  byte :: nat

record SourceRange =
  range_filename :: string
  range_start :: SourcePos
  range_end :: SourcePos

record ParseError =
  subject :: SourceRange
  detail :: string

record MergeError =
  me_elemID :: ElemID
  me_error :: string
  me_message :: string

datatype ValidationErrorClass =
  UnresolvedReferenceValidationError
  | InvalidValueTypeValidationError
  | CircularReferenceValidationError
  | MissingRequiredFieldValidationError

record ValidationError =
  ve_class :: ValidationErrorClass
  ve_elemID :: ElemID
  ve_error :: string
  ve_message :: string

type_synonym SourceMap = "string \<rightharpoonup> SourceRange list"

record Blueprint =
  buffer :: string
  filename :: string
  timestamp :: "nat option"

record ParsedBlueprint = Blueprint +
  elements :: "Element list"
  sourceMap :: SourceMap
  errors :: "ParseError list"

type_synonym ParsedBlueprintMap = "string \<rightharpoonup> ParsedBlueprint"

record Errors =
  parse :: "ParseError list"
  merge :: "MergeError list"
  validation :: "ValidationError list"

record SourceFragment =
  sourceRange :: SourceRange
  fragment :: string

datatype WorkspaceErrorSeverity = Error | Warning

datatype Cause =
  ParseCause ParseError
  | MergeCause MergeError
  | ValidationCause ValidationError

record WorkspaceError =
  sourceFragments :: "SourceFragment list"
  error :: string
  severity :: WorkspaceErrorSeverity
  cause :: Cause

record WorkspaceState =
  parsedBlueprints :: ParsedBlueprintMap
  state_sourceMap :: SourceMap
  state_elements :: "Element list"
  state_errors :: Errors

record Config =
  baseDir :: string
  localStorage :: string

text \<open>
  A JavaScript \<open>Set\<close> iterates in insertion order: the dirty set is the list of its
  members in that order, without repetition.
\<close>

record Workspace =
  config :: Config
  state :: WorkspaceState
  dirtyBlueprints :: "string list"
  useCache :: bool

subsection \<open>Errors of a workspace\<close>

definition hasErrors :: "Errors \<Rightarrow> bool" where
  "hasErrors e =
     list_ex (\<lambda>n. n > 0) [length (parse e), length (merge e), length (validation e)]"

definition SeverValidationErrors :: "ValidationErrorClass list" where
  "SeverValidationErrors = [UnresolvedReferenceValidationError]"

definition instanceof :: "ValidationError \<Rightarrow> ValidationErrorClass \<Rightarrow> bool" where
  "instanceof ve c = (ve_class ve = c)"

definition calculateValidationSeverity :: "ValidationError \<Rightarrow> WorkspaceErrorSeverity" where
  "calculateValidationSeverity ve =
     (if list_ex (\<lambda>e. instanceof ve e) SeverValidationErrors then Error else Warning)"

text \<open>
  \<open>String.prototype.substring\<close>: both indices are clamped to the length and swapped
  when the first is the larger. \<open>resolveSourceFragment\<close> reads the buffer of the
  blueprint of a range with no check: for a file name without a blueprint the read
  throws (also for a name the map inherits from \<open>Object.prototype\<close>, whose member has
  no buffer).
\<close>

definition substring :: "string \<Rightarrow> nat \<Rightarrow> nat \<Rightarrow> string" where
  "substring s a b =
     (let a' = min a (length s); b' = min b (length s);
          lo = min a' b'; hi = max a' b'
      in take (hi - lo) (drop lo s))"

definition resolveSourceFragment :: "WorkspaceState \<Rightarrow> SourceRange \<Rightarrow> js_error + SourceFragment" where
  "resolveSourceFragment st sr =
     (case parsedBlueprints st (range_filename sr) of
        None \<Rightarrow> Inl TypeError
      | Some bp \<Rightarrow>
          Inr \<lparr>sourceRange = sr,
               fragment = substring (buffer bp) (byte (range_start sr)) (byte (range_end sr))\<rparr>)"

text \<open>\<open>Array.prototype.map\<close> with a callback that may throw: the first throw ends it.\<close>

fun map_throwing :: "('a \<Rightarrow> js_error + 'b) \<Rightarrow> 'a list \<Rightarrow> js_error + 'b list" where
  "map_throwing f [] = Inr []"
| "map_throwing f (x # xs) =
     (case f x of
        Inl e \<Rightarrow> Inl e
      | Inr y \<Rightarrow> (case map_throwing f xs of Inl e \<Rightarrow> Inl e | Inr ys \<Rightarrow> Inr (y # ys)))"

definition sourceRangesOf :: "WorkspaceState \<Rightarrow> ElemID \<Rightarrow> SourceRange list" where
  "sourceRangesOf st eid =
     (case state_sourceMap st (getFullName eid) of None \<Rightarrow> [] | Some rs \<Rightarrow> rs)"

definition parseErrorToWorkspaceError :: "WorkspaceState \<Rightarrow> ParseError \<Rightarrow> js_error + WorkspaceError" where
  "parseErrorToWorkspaceError st pe =
     (case resolveSourceFragment st (subject pe) of
        Inl e \<Rightarrow> Inl e
      | Inr sf \<Rightarrow>
          Inr \<lparr>sourceFragments = [sf], error = detail pe, severity = Error,
               cause = ParseCause pe\<rparr>)"

definition mergeErrorToWorkspaceError :: "WorkspaceState \<Rightarrow> MergeError \<Rightarrow> js_error + WorkspaceError" where
  "mergeErrorToWorkspaceError st me =
     (case map_throwing (resolveSourceFragment st) (sourceRangesOf st (me_elemID me)) of
        Inl e \<Rightarrow> Inl e
      | Inr sfs \<Rightarrow>
          Inr \<lparr>sourceFragments = sfs, error = me_message me, severity = Error,
               cause = MergeCause me\<rparr>)"

definition validationErrorToWorkspaceError ::
  "WorkspaceState \<Rightarrow> ValidationError \<Rightarrow> js_error + WorkspaceError" where
  "validationErrorToWorkspaceError st ve =
     (case map_throwing (resolveSourceFragment st) (sourceRangesOf st (ve_elemID ve)) of
        Inl e \<Rightarrow> Inl e
      | Inr sfs \<Rightarrow>
          Inr \<lparr>sourceFragments = sfs, error = ve_message ve,
               severity = calculateValidationSeverity ve, cause = ValidationCause ve\<rparr>)"

definition getWorkspaceErrors :: "WorkspaceState \<Rightarrow> js_error + WorkspaceError list" where
  "getWorkspaceErrors st =
     (let wsErrors = state_errors st in
      case map_throwing (parseErrorToWorkspaceError st) (parse wsErrors) of
        Inl e \<Rightarrow> Inl e
      | Inr ps \<Rightarrow>
          (case map_throwing (mergeErrorToWorkspaceError st) (merge wsErrors) of
             Inl e \<Rightarrow> Inl e
           | Inr ms \<Rightarrow>
               (case map_throwing (validationErrorToWorkspaceError st) (validation wsErrors) of
                  Inl e \<Rightarrow> Inl e
                | Inr vs \<Rightarrow> Inr (ps @ ms @ vs))))"

subsection \<open>Building a state\<close>

text \<open>
  \<open>createWorkspaceState\<close> is the only writer of the state of a workspace. The merger,
  the validator and the built-in \<open>saltoConfigType\<close> are parameters. \<open>_.keyBy\<close> lets a
  later blueprint of the same file name replace an earlier one; \<open>mergeSourceMaps\<close> has
  an entry for every key of some blueprint, with the ranges of all blueprints in their
  order.
\<close>

definition keyByFilename :: "ParsedBlueprint list \<Rightarrow> ParsedBlueprintMap" where
  "keyByFilename blueprints = fold (\<lambda>bp m. m(filename bp \<mapsto> bp)) blueprints Map.empty"

definition mergeSourceMaps :: "ParsedBlueprint list \<Rightarrow> SourceMap" where
  "mergeSourceMaps bps =
     (\<lambda>key. if list_ex (\<lambda>bp. sourceMap bp key \<noteq> None) bps
            then Some (concat (map (\<lambda>bp. case sourceMap bp key of
                                            None \<Rightarrow> [] | Some ranges \<Rightarrow> ranges) bps))
            else None)"

definition createWorkspaceState ::
  "(Element list \<Rightarrow> Element list \<times> MergeError list) \<Rightarrow> (Element list \<Rightarrow> ValidationError list)
     \<Rightarrow> Element \<Rightarrow> ParsedBlueprint list \<Rightarrow> WorkspaceState" where
  "createWorkspaceState merger validator saltoConfigType blueprints =
     (let parseErrors = concat (map errors blueprints);
          elems = concat (map elements blueprints) @ [saltoConfigType];
          (mergedElements, mergeErrors) = merger elems;
          validationErrors = validator mergedElements
      in \<lparr>parsedBlueprints = keyByFilename blueprints,
          state_sourceMap = mergeSourceMaps blueprints,
          state_elements = mergedElements,
          state_errors =
            \<lparr>parse = parseErrors, merge = mergeErrors, validation = validationErrors\<rparr>\<rparr>)"

text \<open>The constructor of \<open>Workspace\<close>: the state of the blueprints, and nothing dirty.\<close>

definition newWorkspace ::
  "(Element list \<Rightarrow> Element list \<times> MergeError list) \<Rightarrow> (Element list \<Rightarrow> ValidationError list)
     \<Rightarrow> Element \<Rightarrow> Config \<Rightarrow> ParsedBlueprint list \<Rightarrow> bool \<Rightarrow> Workspace" where
  "newWorkspace merger validator saltoConfigType cfg blueprints cache =
     \<lparr>config = cfg,
      state = createWorkspaceState merger validator saltoConfigType blueprints,
      dirtyBlueprints = [], useCache = cache\<rparr>"

subsection \<open>Flushing\<close>

text \<open>
  The map of parsed blueprints is a plain object. Reading a name it has no entry for
  gives \<open>undefined\<close>, unless the name is a member that every object inherits from
  \<open>Object.prototype\<close>: then the read gives that member, which is no blueprint.
\<close>

datatype 'a js_property = Undefined | Own 'a | Inherited

definition objectPrototypeNames :: "string list" where
  "objectPrototypeNames =
     [''constructor'', ''hasOwnProperty'', ''isPrototypeOf'', ''propertyIsEnumerable'',
      ''toLocaleString'', ''toString'', ''valueOf'', ''__proto__'', ''__defineGetter__'',
      ''__defineSetter__'', ''__lookupGetter__'', ''__lookupSetter__'']"

definition js_get :: "(string \<rightharpoonup> 'a) \<Rightarrow> string \<Rightarrow> 'a js_property" where
  "js_get obj key =
     (case obj key of
        Some v \<Rightarrow> Own v
      | None \<Rightarrow> if key \<in> set objectPrototypeNames then Inherited else Undefined)"

text \<open>
  The file layer and the parse cache are external: a flush is described by the
  operations it issues, in the order of the dirty set. \<open>path.join\<close> and
  \<open>path.dirname\<close> of Node and the clock \<open>Date.now()\<close> are parameters, and every awaited
  operation of the file layer and the cache is taken to resolve. \<open>flush\<close> starts one
  callback for each dirty name. A callback throws, before it issues anything, when
  \<open>isNewConfig\<close> reads \<open>elements.length\<close> of an inherited member; its name stays dirty,
  the other callbacks run to their end, and the promise of \<open>flush\<close> is rejected: the
  flush does not complete.
\<close>

datatype FileOp =
  Rm string
  | Mkdirp string
  | WriteTextFile string string
  | CachePut string nat ParsedBlueprint

definition CREDS_DIR :: string where
  "CREDS_DIR = ''credentials''"

definition isNewConfig ::
  "(string \<Rightarrow> string \<Rightarrow> string) \<Rightarrow> ParsedBlueprint js_property \<Rightarrow> js_error + bool" where
  "isNewConfig path_join bp =
     (case bp of
        Undefined \<Rightarrow> Inr False
      | Inherited \<Rightarrow> Inl TypeError
      | Own b \<Rightarrow>
          Inr (length (elements b) = 1
               \<and> isConfig (elemID (elements b ! 0))
               \<and> filename b = path_join CREDS_DIR (adapter (elemID (elements b ! 0)) @ ''.bp'')))"

definition flushOne ::
  "(string \<Rightarrow> string \<Rightarrow> string) \<Rightarrow> (string \<Rightarrow> string) \<Rightarrow> nat \<Rightarrow> Workspace \<Rightarrow> string
     \<Rightarrow> js_error + FileOp list" where
  "flushOne path_join path_dirname now ws fname =
     (let bp = js_get (parsedBlueprints (state ws)) fname in
      case isNewConfig path_join bp of
        Inl e \<Rightarrow> Inl e
      | Inr isNew \<Rightarrow>
          (let filePath = (if isNew
                           then path_join (localStorage (config ws)) fname
                           else path_join (baseDir (config ws)) fname)
           in case bp of
                Undefined \<Rightarrow> Inr [Rm filePath]
              | Inherited \<Rightarrow> Inl TypeError
              | Own b \<Rightarrow>
                  Inr ([Mkdirp (path_dirname filePath), WriteTextFile filePath (buffer b)]
                       @ (if useCache ws then [CachePut filePath now b] else []))))"

text \<open>
  What a flush leaves: the operations issued, the names still dirty, and whether its
  promise resolved (\<open>Inr ()\<close>) or was rejected with the first error thrown.
\<close>

record FlushResult =
  fr_ops :: "FileOp list"
  fr_dirty :: "string list"
  fr_outcome :: "js_error + unit"

definition flushStep ::
  "(string \<Rightarrow> string \<Rightarrow> string) \<Rightarrow> (string \<Rightarrow> string) \<Rightarrow> nat \<Rightarrow> Workspace \<Rightarrow> string
     \<Rightarrow> FlushResult \<Rightarrow> FlushResult" where
  "flushStep path_join path_dirname now ws f acc =
     (case flushOne path_join path_dirname now ws f of
        Inl e \<Rightarrow>
          acc\<lparr>fr_outcome := (case fr_outcome acc of Inl first \<Rightarrow> Inl first | Inr u \<Rightarrow> Inl e)\<rparr>
      | Inr issued \<Rightarrow>
          acc\<lparr>fr_ops := fr_ops acc @ issued, fr_dirty := removeAll f (fr_dirty acc)\<rparr>)"

definition flush ::
  "(string \<Rightarrow> string \<Rightarrow> string) \<Rightarrow> (string \<Rightarrow> string) \<Rightarrow> nat \<Rightarrow> Workspace \<Rightarrow> FlushResult" where
  "flush path_join path_dirname now ws =
     fold (flushStep path_join path_dirname now ws) (dirtyBlueprints ws)
       \<lparr>fr_ops = [], fr_dirty = dirtyBlueprints ws, fr_outcome = Inr ()\<rparr>"

definition markDirty :: "string list \<Rightarrow> Workspace \<Rightarrow> Workspace" where
  "markDirty names ws =
     ws\<lparr>dirtyBlueprints :=
          fold (\<lambda>n d. if n \<in> set d then d else d @ [n]) names (dirtyBlueprints ws)\<rparr>"


subsection \<open>When a source range has a buffer\<close>

text \<open>
  A source range resolves when its file is one of the parsed blueprints. The ranges a
  workspace state refers to are the subjects of its parse errors and the source map's
  ranges of the identifiers of its merge and validation errors.
\<close>

definition rangeResolves :: "WorkspaceState \<Rightarrow> SourceRange \<Rightarrow> bool" where
  "rangeResolves st sr = (parsedBlueprints st (range_filename sr) \<noteq> None)"

definition rangesResolve :: "WorkspaceState \<Rightarrow> bool" where
  "rangesResolve st =
     (list_all (\<lambda>pe. rangeResolves st (subject pe)) (parse (state_errors st))
      \<and> list_all (\<lambda>me. list_all (rangeResolves st) (sourceRangesOf st (me_elemID me)))
           (merge (state_errors st))
      \<and> list_all (\<lambda>ve. list_all (rangeResolves st) (sourceRangesOf st (ve_elemID ve)))
           (validation (state_errors st)))"


section \<open>The merger\<close>

text \<open>
  Modelled from the spec: the merger (\<open>core/merger.ts\<close>) and the element classes of the
  adapter API (\<open>ObjectType\<close>, \<open>PrimitiveType\<close>, \<open>Field\<close>, \<open>InstanceElement\<close>,
  \<open>Variable\<close>, \<open>ListType\<close>) are not among the sources, which hold the merger's tests
  only. This section follows sections 3 and 4.1 of the specification. Where the
  specification leaves a point open or says two things, the model decides:
  \<^item> the groups come in the order in which their identifiers first occur in the input
    (``gather by ElemID first, then fold each group'');
  \<^item> a group is merged by the rules of the kind of its first element, and a contribution
    of another kind is left out (the id-type of an identifier keeps instances, variables
    and types apart, and there is no rule for a group of mixed kinds);
  \<^item> a merged field keeps the type of the base (``base: provides field types'', and
    scenario 1, where both fields stay typed STRING);
  \<^item> a value key contributed twice by instances is a duplicate unless both values are
    maps, which are merged deeply (the table of 4.1.1 and scenario 3);
  \<^item> an object type without a base, with several bases, or with an update of a field
    the base lacks yields no merged object (scenario 2); after a duplicate the first
    contribution is kept;
  \<^item> the identifier of a field, a key or an annotation inside an element appends its
    name to the dotted full name of the element;
  \<^item> the reason text of an error is a parameter.
\<close>

subsection \<open>Values, types and elements\<close>

text \<open>
  Modelled from the spec: the data model of section 3.2. A map is an association list,
  read with \<open>map_of\<close>. A type reference is a concrete type, a placeholder that carries
  only an identifier, or a list wrapper.
\<close>

datatype Primitive = STRING | NUMBER | BOOLEAN

datatype Value =
  VNull
  | VBoolean bool
  | VNumber int
  | VString string
  | VList "Value list"
  | VMap "(string \<times> Value) list"
  | ReferenceExpression string

type_synonym Values = "(string \<times> Value) list"

datatype ObjectType =
  ObjectType (obj_id: ElemID) (obj_fields: "(string \<times> Field) list") (obj_annotations: Values)
    (obj_annotation_types: "(string \<times> TypeRef) list") (obj_is_settings: bool)
and PrimitiveType =
  PrimitiveType (prim_id: ElemID) (prim_primitive: Primitive) (prim_annotations: Values)
    (prim_annotation_types: "(string \<times> TypeRef) list")
and TypeRef =
  ConcreteObject ObjectType
  | ConcretePrimitive PrimitiveType
  | Placeholder ElemID
  | ListType TypeRef
and Field =
  Field (field_parent_id: ElemID) (field_name: string) (field_type: TypeRef)
    (field_annotations: Values)

record InstanceElement =
  inst_id :: ElemID
  inst_type :: TypeRef
  inst_value :: Values
  inst_annotations :: Values

record Variable =
  var_id :: ElemID
  var_value :: Value

datatype Elem =
  ObjectElem ObjectType
  | PrimitiveElem PrimitiveType
  | InstanceElem InstanceElement
  | VariableElem Variable

fun elemIDOf :: "Elem \<Rightarrow> ElemID" where
  "elemIDOf (ObjectElem ob) = obj_id ob"
| "elemIDOf (PrimitiveElem p) = prim_id p"
| "elemIDOf (InstanceElem i) = inst_id i"
| "elemIDOf (VariableElem v) = var_id v"

fun refAnnotations :: "TypeRef \<Rightarrow> Values" where
  "refAnnotations (ConcreteObject ob) = obj_annotations ob"
| "refAnnotations (ConcretePrimitive p) = prim_annotations p"
| "refAnnotations (Placeholder i) = []"
| "refAnnotations (ListType t) = []"

fun typeFields :: "TypeRef \<Rightarrow> (string \<times> Field) list" where
  "typeFields (ConcreteObject ob) = obj_fields ob"
| "typeFields (ConcretePrimitive p) = []"
| "typeFields (Placeholder i) = []"
| "typeFields (ListType t) = []"

text \<open>
  Modelled from the spec: the annotation key of a default (the tests write it
  \<open>_default\<close>), and the update marker of section 4.1.1, the type whose name ends with
  the keyword \<open>update\<close>. A declaration whose fields all carry the marker is an update,
  also when it declares no field.
\<close>

definition DEFAULT :: string where
  "DEFAULT = ''_default''"

definition UPDATE_DEFINITION :: string where
  "UPDATE_DEFINITION = ''update''"

definition lastPart :: "string \<Rightarrow> string" where
  "lastPart s = rev (takeWhile (\<lambda>c. c \<noteq> CHR ''.'') (rev s))"

definition isUpdateMarker :: "ElemID \<Rightarrow> bool" where
  "isUpdateMarker i = (lastPart (getFullName i) = UPDATE_DEFINITION)"

fun carriesUpdateMarker :: "TypeRef \<Rightarrow> bool" where
  "carriesUpdateMarker (ConcreteObject ob) = isUpdateMarker (obj_id ob)"
| "carriesUpdateMarker (ConcretePrimitive p) = isUpdateMarker (prim_id p)"
| "carriesUpdateMarker (Placeholder i) = isUpdateMarker i"
| "carriesUpdateMarker (ListType t) = False"

definition isUpdate :: "ObjectType \<Rightarrow> bool" where
  "isUpdate ob = list_all (\<lambda>(n, f). carriesUpdateMarker (field_type f)) (obj_fields ob)"

definition createNestedID :: "ElemID \<Rightarrow> string \<Rightarrow> ElemID" where
  "createNestedID i n =
     \<lparr>adapter = adapter i, getFullName = getFullName i @ ''.'' @ n, isConfig = isConfig i\<rparr>"

subsection \<open>Merge errors\<close>

text \<open>
  Modelled from the spec: the error kinds of the table in section 4.1.1, and the class
  \<open>MergeError\<close> of section 7: an error carries the offending identifier and a
  pre-formatted reason, and its message, which is also its string form, is
  \<open>Error merging <full_name>: <reason>\<close>.
\<close>

datatype MergeErrorKind =
  NoBaseDefinitionMergeError
  | MultipleBaseDefinitionsMergeError
  | DuplicateAnnotationFieldDefinitionError
  | DuplicateAnnotationTypeError
  | DuplicateAnnotationError
  | DuplicateInstanceKeyError
  | MultiplePrimitiveTypesUnsupportedError
  | DuplicateVariableNameError

record TypedMergeError = MergeError +
  me_kind :: MergeErrorKind

type_synonym Reasons = "MergeErrorKind \<Rightarrow> ElemID \<Rightarrow> string"

definition newMergeError :: "Reasons \<Rightarrow> MergeErrorKind \<Rightarrow> ElemID \<Rightarrow> TypedMergeError" where
  "newMergeError reason k i =
     \<lparr>me_elemID = i, me_error = reason k i,
      me_message = ''Error merging '' @ getFullName i @ '': '' @ reason k i,
      me_kind = k\<rparr>"

definition toString :: "TypedMergeError \<Rightarrow> string" where
  "toString e = me_message e"

subsection \<open>Union with duplicate detection\<close>

text \<open>
  Modelled from the spec: the union of two maps in which a key of the second that the
  first already has is reported and the first value is kept (4.1.2), and the deep merge
  of instance values (4.1.3), which descends where both sides are maps.
\<close>

fun unionNoDup :: "(string \<times> 'v) list \<Rightarrow> (string \<times> 'v) list \<Rightarrow> (string \<times> 'v) list \<times> string list" where
  "unionNoDup acc [] = (acc, [])"
| "unionNoDup acc ((k, v) # rest) =
     (case map_of acc k of
        None \<Rightarrow> unionNoDup (acc @ [(k, v)]) rest
      | Some old \<Rightarrow> (let (r, ds) = unionNoDup acc rest in (r, k # ds)))"

fun mergeValues :: "Values \<Rightarrow> Values \<Rightarrow> Values \<times> string list" where
  "mergeValues acc [] = (acc, [])"
| "mergeValues acc ((k, v) # rest) =
     (case map_of acc k of
        None \<Rightarrow> mergeValues (acc @ [(k, v)]) rest
      | Some old \<Rightarrow>
          (case (old, v) of
             (VMap a, VMap b) \<Rightarrow>
               (let (m, ds) = mergeValues a b;
                    (r, ds') = mergeValues (map (\<lambda>(k', x). if k' = k then (k', VMap m) else (k', x)) acc) rest
                in (r, map (\<lambda>d. k @ ''.'' @ d) ds @ ds'))
           | _ \<Rightarrow> (let (r, ds') = mergeValues acc rest in (r, k # ds'))))"

subsection \<open>Object types\<close>

text \<open>
  Modelled from the spec: the object merge of section 4.1.2. Starting from the base,
  every update is applied in turn. Each field an update declares must exist in the base;
  the annotations that the updates give a field are united under the duplicate rule and
  laid over those of the base (in the test ``merges multiple update fields blocks'' the
  label of an update replaces the label of the base, and there is no error). The
  annotations and annotation types of the updates are united with those of the base.
\<close>

definition putKey :: "string \<Rightarrow> 'v \<Rightarrow> (string \<times> 'v) list \<Rightarrow> (string \<times> 'v) list" where
  "putKey k v m =
     (case map_of m k of
        None \<Rightarrow> m @ [(k, v)]
      | Some old \<Rightarrow> map (\<lambda>(k', x). if k' = k then (k', v) else (k', x)) m)"

definition overlay :: "(string \<times> 'v) list \<Rightarrow> (string \<times> 'v) list \<Rightarrow> (string \<times> 'v) list" where
  "overlay lower upper = filter (\<lambda>(k, x). map_of upper k = None) lower @ upper"

definition updatesOf :: "(string \<times> Values) list \<Rightarrow> string \<Rightarrow> Values" where
  "updatesOf upd n = (case map_of upd n of None \<Rightarrow> [] | Some anns \<Rightarrow> anns)"

record ObjectMerge =
  mo_updates :: "(string \<times> Values) list"
  mo_annotations :: Values
  mo_annotation_types :: "(string \<times> TypeRef) list"
  mo_errors :: "TypedMergeError list"

definition mergeFieldUpdate ::
  "Reasons \<Rightarrow> ElemID \<Rightarrow> ObjectType \<Rightarrow> string \<times> Field \<Rightarrow> ObjectMerge \<Rightarrow> ObjectMerge" where
  "mergeFieldUpdate reason i base nf acc =
     (case nf of (n, f) \<Rightarrow>
        (case map_of (obj_fields base) n of
           None \<Rightarrow>
             acc\<lparr>mo_errors := mo_errors acc
                    @ [newMergeError reason NoBaseDefinitionMergeError (createNestedID i n)]\<rparr>
         | Some bf \<Rightarrow>
             (let (anns, ds) = unionNoDup (updatesOf (mo_updates acc) n) (field_annotations f)
              in acc\<lparr>mo_updates := putKey n anns (mo_updates acc),
                     mo_errors := mo_errors acc
                       @ map (\<lambda>d. newMergeError reason DuplicateAnnotationFieldDefinitionError
                                     (createNestedID (createNestedID i n) d)) ds\<rparr>)))"

definition applyUpdate ::
  "Reasons \<Rightarrow> ElemID \<Rightarrow> ObjectType \<Rightarrow> ObjectType \<Rightarrow> ObjectMerge \<Rightarrow> ObjectMerge" where
  "applyUpdate reason i base u acc =
     (let acc1 = fold (mergeFieldUpdate reason i base) (obj_fields u) acc;
          (anns, ads) = unionNoDup (mo_annotations acc1) (obj_annotations u);
          (atypes, tds) = unionNoDup (mo_annotation_types acc1) (obj_annotation_types u)
      in acc1\<lparr>mo_annotations := anns, mo_annotation_types := atypes,
              mo_errors := mo_errors acc1
                @ map (\<lambda>d. newMergeError reason DuplicateAnnotationError (createNestedID i d)) ads
                @ map (\<lambda>d. newMergeError reason DuplicateAnnotationTypeError (createNestedID i d))
                    tds\<rparr>)"

definition mergedField :: "ObjectMerge \<Rightarrow> string \<times> Field \<Rightarrow> string \<times> Field" where
  "mergedField acc nf =
     (case nf of (n, bf) \<Rightarrow>
        (n, Field (field_parent_id bf) (field_name bf) (field_type bf)
              (overlay (field_annotations bf) (updatesOf (mo_updates acc) n))))"

definition mergeObjectDefinitions ::
  "Reasons \<Rightarrow> ElemID \<Rightarrow> ObjectType list \<Rightarrow> Elem option \<times> TypedMergeError list" where
  "mergeObjectDefinitions reason i decls =
     (case filter (\<lambda>ob. \<not> isUpdate ob) decls of
        [] \<Rightarrow> (None, [newMergeError reason NoBaseDefinitionMergeError i])
      | [base] \<Rightarrow>
          (let acc = fold (applyUpdate reason i base) (filter isUpdate decls)
                       \<lparr>mo_updates = [], mo_annotations = obj_annotations base,
                        mo_annotation_types = obj_annotation_types base, mo_errors = []\<rparr>
           in (if list_ex (\<lambda>e. me_kind e = NoBaseDefinitionMergeError) (mo_errors acc) then None
               else Some (ObjectElem
                      (ObjectType (obj_id base) (map (mergedField acc) (obj_fields base))
                         (mo_annotations acc) (mo_annotation_types acc) (obj_is_settings base))),
               mo_errors acc))
      | base # others \<Rightarrow> (None, [newMergeError reason MultipleBaseDefinitionsMergeError i]))"

subsection \<open>Instances and their defaults\<close>

text \<open>
  Modelled from the spec: the default of a field as section 4.1.4 words it (the
  annotations of the declared type are looked at first, and the field's own annotation
  wins when both have a default), and the injection of defaults for the field names the
  merged value lacks.
\<close>

definition fieldDefault :: "Field \<Rightarrow> Value option" where
  "fieldDefault f =
     (case map_of (refAnnotations (field_type f)) DEFAULT of
        Some td \<Rightarrow>
          (case map_of (field_annotations f) DEFAULT of Some fd \<Rightarrow> Some fd | None \<Rightarrow> Some td)
      | None \<Rightarrow> map_of (field_annotations f) DEFAULT)"

definition injectDefault :: "(string \<times> Field) list \<Rightarrow> string \<Rightarrow> Values \<Rightarrow> Values" where
  "injectDefault fds n v =
     (case map_of v n of
        Some present \<Rightarrow> v
      | None \<Rightarrow>
          (case map_of fds n of
             None \<Rightarrow> v
           | Some f \<Rightarrow> (case fieldDefault f of None \<Rightarrow> v | Some d \<Rightarrow> v @ [(n, d)])))"

definition injectDefaults :: "(string \<times> Field) list \<Rightarrow> Values \<Rightarrow> Values" where
  "injectDefaults fds v = fold (injectDefault fds) (map fst fds) v"

fun objectsOf :: "Elem list \<Rightarrow> ObjectType list" where
  "objectsOf [] = []"
| "objectsOf (ObjectElem ob # es) = ob # objectsOf es"
| "objectsOf (e # es) = objectsOf es"

fun primitivesOf :: "Elem list \<Rightarrow> PrimitiveType list" where
  "primitivesOf [] = []"
| "primitivesOf (PrimitiveElem p # es) = p # primitivesOf es"
| "primitivesOf (e # es) = primitivesOf es"

fun instancesOf :: "Elem list \<Rightarrow> InstanceElement list" where
  "instancesOf [] = []"
| "instancesOf (InstanceElem i # es) = i # instancesOf es"
| "instancesOf (e # es) = instancesOf es"

fun variablesOf :: "Elem list \<Rightarrow> Variable list" where
  "variablesOf [] = []"
| "variablesOf (VariableElem v # es) = v # variablesOf es"
| "variablesOf (e # es) = variablesOf es"

text \<open>
  Modelled from the spec: the instance merge of section 4.1.3. \<open>rawInstanceValue\<close> is
  the merged value of the instances of an identifier before defaults are injected.
\<close>

definition mergeInstanceValues :: "InstanceElement list \<Rightarrow> Values \<times> string list" where
  "mergeInstanceValues insts =
     (case insts of
        [] \<Rightarrow> ([], [])
      | first # rest \<Rightarrow>
          fold (\<lambda>inst (v, cs). let (v', cs') = mergeValues v (inst_value inst) in (v', cs @ cs'))
            rest (inst_value first, []))"

definition mergeInstanceAnnotations :: "InstanceElement list \<Rightarrow> Values \<times> string list" where
  "mergeInstanceAnnotations insts =
     (case insts of
        [] \<Rightarrow> ([], [])
      | first # rest \<Rightarrow>
          fold (\<lambda>inst (a, cs). let (a', cs') = unionNoDup a (inst_annotations inst) in (a', cs @ cs'))
            rest (inst_annotations first, []))"

definition rawInstanceValue :: "ElemID \<Rightarrow> Elem list \<Rightarrow> Values" where
  "rawInstanceValue i xs = fst (mergeInstanceValues (instancesOf (filter (\<lambda>e. elemIDOf e = i) xs)))"

definition mergeInstanceDefinitions ::
  "Reasons \<Rightarrow> ElemID \<Rightarrow> InstanceElement list \<Rightarrow> Elem option \<times> TypedMergeError list" where
  "mergeInstanceDefinitions reason i insts =
     (case insts of
        [] \<Rightarrow> (None, [])
      | first # rest \<Rightarrow>
          (let (raw, ks) = mergeInstanceValues insts;
               (anns, ds) = mergeInstanceAnnotations insts;
               T = inst_type first
           in (Some (InstanceElem
                 \<lparr>inst_id = i, inst_type = T,
                  inst_value = injectDefaults (typeFields T) raw,
                  inst_annotations = anns\<rparr>),
               map (\<lambda>k. newMergeError reason DuplicateInstanceKeyError (createNestedID i k)) ks
               @ map (\<lambda>d. newMergeError reason DuplicateAnnotationError (createNestedID i d)) ds)))"

subsection \<open>Primitive types and variables\<close>

text \<open>
  Modelled from the spec: a primitive type and a variable are unique for their
  identifier (sections 4.1.1 and 4.1.5); a second one is an error.
\<close>

definition mergePrimitives ::
  "Reasons \<Rightarrow> ElemID \<Rightarrow> PrimitiveType list \<Rightarrow> Elem option \<times> TypedMergeError list" where
  "mergePrimitives reason i prims =
     (case prims of
        [] \<Rightarrow> (None, [])
      | [p] \<Rightarrow> (Some (PrimitiveElem p), [])
      | p # others \<Rightarrow>
          (Some (PrimitiveElem p),
           [newMergeError reason MultiplePrimitiveTypesUnsupportedError i]))"

definition mergeVariables ::
  "Reasons \<Rightarrow> ElemID \<Rightarrow> Variable list \<Rightarrow> Elem option \<times> TypedMergeError list" where
  "mergeVariables reason i vars =
     (case vars of
        [] \<Rightarrow> (None, [])
      | [v] \<Rightarrow> (Some (VariableElem v), [])
      | v # others \<Rightarrow>
          (Some (VariableElem v), [newMergeError reason DuplicateVariableNameError i]))"

subsection \<open>Merging a sequence of elements\<close>

text \<open>
  Modelled from the spec: \<open>mergeElements\<close> gathers the elements by identifier and
  merges each group (sections 4.1 and 9); it returns the merged elements and the
  errors.
\<close>

definition mergeGroup :: "Reasons \<Rightarrow> ElemID \<Rightarrow> Elem list \<Rightarrow> Elem option \<times> TypedMergeError list" where
  "mergeGroup reason i es =
     (case es of
        [] \<Rightarrow> (None, [])
      | ObjectElem ob # rest \<Rightarrow> mergeObjectDefinitions reason i (objectsOf es)
      | PrimitiveElem p # rest \<Rightarrow> mergePrimitives reason i (primitivesOf es)
      | InstanceElem inst # rest \<Rightarrow> mergeInstanceDefinitions reason i (instancesOf es)
      | VariableElem v # rest \<Rightarrow> mergeVariables reason i (variablesOf es))"

definition gatherIDs :: "Elem list \<Rightarrow> ElemID list" where
  "gatherIDs xs = fold (\<lambda>e ids. if elemIDOf e \<in> set ids then ids else ids @ [elemIDOf e]) xs []"

definition groupOf :: "ElemID \<Rightarrow> Elem list \<Rightarrow> Elem list" where
  "groupOf i xs = filter (\<lambda>e. elemIDOf e = i) xs"

definition mergeElements :: "Reasons \<Rightarrow> Elem list \<Rightarrow> Elem list \<times> TypedMergeError list" where
  "mergeElements reason xs =
     (let rs = map (\<lambda>i. mergeGroup reason i (groupOf i xs)) (gatherIDs xs)
      in (List.map_filter fst rs, concat (map snd rs)))"

text \<open>An error is formatted when its message is built from its identifier and reason.\<close>

definition formatted :: "TypedMergeError \<Rightarrow> bool" where
  "formatted e =
     (me_message e = ''Error merging '' @ getFullName (me_elemID e) @ '': '' @ me_error e)"


section \<open>A small workspace\<close>

text \<open>
  Concrete values on which the definitions are evaluated: a path join that writes a
  slash, three blueprints (an ordinary one with a parse error, an adapter's credentials
  file, and a file \<open>foo.bp\<close> that holds a single config object under another name),
  a blueprint \<open>a.bp\<close> whose parse error has its subject in a file \<open>b.bp\<close>, errors of
  every kind, workspaces with different dirty names, and a plan item.
\<close>

definition ex_join :: "string \<Rightarrow> string \<Rightarrow> string" where
  "ex_join a b = a @ ''/'' @ b"

definition ex_dirname :: "string \<Rightarrow> string" where
  "ex_dirname p = rev (drop 1 (dropWhile (\<lambda>c. c \<noteq> CHR ''/'') (rev p)))"

definition ex_range :: "string \<Rightarrow> nat \<Rightarrow> nat \<Rightarrow> SourceRange" where
  "ex_range f a b =
     \<lparr>range_filename = f,
      range_start = \<lparr>line = 1, col = a + 1, byte = a\<rparr>,
      range_end = \<lparr>line = 1, col = b + 1, byte = b\<rparr>\<rparr>"

definition ex_base_id :: ElemID where
  "ex_base_id = \<lparr>adapter = ''salto'', getFullName = ''salto.base'', isConfig = False\<rparr>"

definition ex_config_id :: ElemID where
  "ex_config_id = \<lparr>adapter = ''salesforce'', getFullName = ''salesforce'', isConfig = True\<rparr>"

definition ex_parse_error :: ParseError where
  "ex_parse_error = \<lparr>subject = ex_range ''base.bp'' 18 19, detail = ''unexpected token''\<rparr>"

definition ex_base_bp :: ParsedBlueprint where
  "ex_base_bp =
     \<lparr>buffer = ''type salto.base { ! }'', filename = ''base.bp'', timestamp = Some 5,
      elements = [\<lparr>elemID = ex_base_id\<rparr>],
      sourceMap = [''salto.base'' \<mapsto> [ex_range ''base.bp'' 0 21]],
      errors = [ex_parse_error]\<rparr>"

definition ex_creds_bp :: ParsedBlueprint where
  "ex_creds_bp =
     \<lparr>buffer = ''salesforce { }'', filename = ''credentials/salesforce.bp'', timestamp = None,
      elements = [\<lparr>elemID = ex_config_id\<rparr>], sourceMap = Map.empty, errors = []\<rparr>"

definition ex_foo_bp :: ParsedBlueprint where
  "ex_foo_bp =
     \<lparr>buffer = ''salesforce { token = 1 }'', filename = ''foo.bp'', timestamp = None,
      elements = [\<lparr>elemID = ex_config_id\<rparr>], sourceMap = Map.empty, errors = []\<rparr>"

definition ex_merge_error :: MergeError where
  "ex_merge_error =
     \<lparr>me_elemID = ex_base_id, me_error = ''duplicate annotation'',
      me_message = ''Error merging salto.base: duplicate annotation''\<rparr>"

definition ex_unresolved :: ValidationError where
  "ex_unresolved =
     \<lparr>ve_class = UnresolvedReferenceValidationError, ve_elemID = ex_base_id,
      ve_error = ''unresolved reference'', ve_message = ''unresolved reference in salto.base''\<rparr>"

definition ex_invalid :: ValidationError where
  "ex_invalid =
     \<lparr>ve_class = InvalidValueTypeValidationError, ve_elemID = ex_config_id,
      ve_error = ''invalid value'', ve_message = ''invalid value in salesforce''\<rparr>"

definition ex_errors :: Errors where
  "ex_errors =
     \<lparr>parse = [ex_parse_error], merge = [ex_merge_error],
      validation = [ex_unresolved, ex_invalid]\<rparr>"

definition ex_state :: WorkspaceState where
  "ex_state =
     \<lparr>parsedBlueprints =
        [''base.bp'' \<mapsto> ex_base_bp, ''credentials/salesforce.bp'' \<mapsto> ex_creds_bp,
         ''foo.bp'' \<mapsto> ex_foo_bp],
      state_sourceMap = [''salto.base'' \<mapsto> [ex_range ''base.bp'' 0 21]],
      state_elements = [\<lparr>elemID = ex_base_id\<rparr>, \<lparr>elemID = ex_config_id\<rparr>],
      state_errors = ex_errors\<rparr>"

definition ex_workspace_errors :: "WorkspaceError list" where
  "ex_workspace_errors =
     [\<lparr>sourceFragments = [\<lparr>sourceRange = ex_range ''base.bp'' 18 19, fragment = ''!''\<rparr>],
       error = ''unexpected token'', severity = Error, cause = ParseCause ex_parse_error\<rparr>,
      \<lparr>sourceFragments =
         [\<lparr>sourceRange = ex_range ''base.bp'' 0 21, fragment = ''type salto.base { ! }''\<rparr>],
       error = ''Error merging salto.base: duplicate annotation'', severity = Error,
       cause = MergeCause ex_merge_error\<rparr>,
      \<lparr>sourceFragments =
         [\<lparr>sourceRange = ex_range ''base.bp'' 0 21, fragment = ''type salto.base { ! }''\<rparr>],
       error = ''unresolved reference in salto.base'', severity = Error,
       cause = ValidationCause ex_unresolved\<rparr>,
      \<lparr>sourceFragments = [], error = ''invalid value in salesforce'', severity = Warning,
       cause = ValidationCause ex_invalid\<rparr>]"

definition ex_misfiled_bp :: ParsedBlueprint where
  "ex_misfiled_bp =
     \<lparr>buffer = ''type salto.base { ! }'', filename = ''a.bp'', timestamp = None,
      elements = [], sourceMap = Map.empty,
      errors = [\<lparr>subject = ex_range ''b.bp'' 18 19, detail = ''unexpected token''\<rparr>]\<rparr>"

definition ex_workspace :: Workspace where
  "ex_workspace =
     \<lparr>config = \<lparr>baseDir = ''ws'', localStorage = ''home''\<rparr>,
      state = ex_state,
      dirtyBlueprints = [''credentials/salesforce.bp'', ''foo.bp'', ''gone.bp''],
      useCache = False\<rparr>"

definition ex_foo_workspace :: Workspace where
  "ex_foo_workspace = ex_workspace\<lparr>dirtyBlueprints := [''foo.bp'']\<rparr>"

definition ex_constructor_workspace :: Workspace where
  "ex_constructor_workspace = ex_workspace\<lparr>dirtyBlueprints := [''constructor'', ''gone.bp'']\<rparr>"

definition ex_item :: PlanItem where
  "ex_item = \<lparr>parent = ModificationDiff \<lparr>elemID = ex_base_id\<rparr> \<lparr>elemID = ex_base_id\<rparr>\<rparr>"

definition ex_STARTACTION :: "Action \<Rightarrow> string" where
  "ex_STARTACTION a = (case a of Add \<Rightarrow> ''creating'' | Modify \<Rightarrow> ''changing'' | Remove \<Rightarrow> ''removing'')"

definition ex_ENDACTION :: "Action \<Rightarrow> string" where
  "ex_ENDACTION a = (case a of Add \<Rightarrow> ''Creation'' | Modify \<Rightarrow> ''Change'' | Remove \<Rightarrow> ''Removal'')"


section \<open>The elements of the merger's tests\<close>

text \<open>
  The types, instances and variables that \<open>merger.test.ts\<close> builds, with example reason
  texts. The recursive type of the tests refers to itself through a placeholder. The
  maps of \<open>mergedObject\<close> and the merged instances are written in the order in which the
  model builds them; the tests compare objects, whose equality knows no order.
\<close>

definition mk_id :: "string \<Rightarrow> string \<Rightarrow> ElemID" where
  "mk_id a n =
     \<lparr>adapter = a, getFullName = (if a = [] then n else a @ ''.'' @ n), isConfig = False\<rparr>"

definition ex_reason :: Reasons where
  "ex_reason k i =
     (case k of
        NoBaseDefinitionMergeError \<Rightarrow> ''no base definition''
      | MultipleBaseDefinitionsMergeError \<Rightarrow> ''multiple base definitions''
      | DuplicateAnnotationFieldDefinitionError \<Rightarrow> ''duplicate annotation of a field''
      | DuplicateAnnotationTypeError \<Rightarrow> ''duplicate annotation type''
      | DuplicateAnnotationError \<Rightarrow> ''duplicate annotation''
      | DuplicateInstanceKeyError \<Rightarrow> ''duplicate key''
      | MultiplePrimitiveTypesUnsupportedError \<Rightarrow> ''multiple primitive definitions''
      | DuplicateVariableNameError \<Rightarrow> ''duplicate variable'')"

definition updateType :: TypeRef where
  "updateType = ConcreteObject (ObjectType (mk_id [] UPDATE_DEFINITION) [] [] [] False)"

definition BuiltinSTRING :: TypeRef where
  "BuiltinSTRING = ConcretePrimitive (PrimitiveType (mk_id [] ''string'') STRING [] [])"

definition baseElemID :: ElemID where
  "baseElemID = mk_id ''salto'' ''base''"

definition base :: ObjectType where
  "base = ObjectType baseElemID
     [(''field1'', Field baseElemID ''field1'' BuiltinSTRING [(''label'', VString ''base'')]),
      (''field2'', Field baseElemID ''field2'' BuiltinSTRING [(''label'', VString ''base'')])]
     [(''_default'', VMap [(''field1'', VString ''base1''), (''field2'', VString ''base2'')])]
     [] False"

definition unrelated :: ObjectType where
  "unrelated = ObjectType (mk_id ''salto'' ''unrelated'')
     [(''field1'', Field baseElemID ''field1'' BuiltinSTRING [(''label'', VString ''base'')])]
     [] [] False"

definition update1 :: ObjectType where
  "update1 = ObjectType baseElemID
     [(''field1'', Field baseElemID ''field1'' updateType [(''label'', VString ''update1'')])]
     [] [] False"

definition update2 :: ObjectType where
  "update2 = ObjectType baseElemID
     [(''field2'', Field baseElemID ''field2'' updateType [(''label'', VString ''update2'')])]
     [] [] False"

definition updateAnno :: ObjectType where
  "updateAnno = ObjectType baseElemID [] [] [(''anno1'', BuiltinSTRING)] False"

definition multipleUpdateAnno :: ObjectType where
  "multipleUpdateAnno = ObjectType baseElemID [] [] [(''anno1'', BuiltinSTRING)] False"

definition updateAnnoValues :: ObjectType where
  "updateAnnoValues = ObjectType baseElemID [] [(''anno1'', VString ''updated'')] [] False"

definition multipleUpdateAnnoValues :: ObjectType where
  "multipleUpdateAnnoValues = ObjectType baseElemID [] [(''anno1'', VString ''updated'')] [] False"

definition multipleUpdate1 :: ObjectType where
  "multipleUpdate1 = ObjectType baseElemID
     [(''field1'', Field baseElemID ''field1'' updateType [(''label'', VString ''update1'')])]
     [] [] False"

definition missingUpdate :: ObjectType where
  "missingUpdate = ObjectType baseElemID
     [(''field3'', Field baseElemID ''field3'' updateType [(''label'', VString ''update3'')])]
     [] [] False"

definition multipleBase :: ObjectType where
  "multipleBase = ObjectType baseElemID
     [(''field1'', Field baseElemID ''field1'' (ListType BuiltinSTRING)
                     [(''label'', VString ''base'')])]
     [] [] False"

definition instanceElement :: InstanceElement where
  "instanceElement =
     \<lparr>inst_id = mk_id ''salto'' ''base.instance.inst'', inst_type = ConcreteObject base,
      inst_value = [], inst_annotations = []\<rparr>"

definition instanceElement2 :: InstanceElement where
  "instanceElement2 =
     \<lparr>inst_id = mk_id ''salto'' ''unrelated.instance.inst2'', inst_type = ConcreteObject unrelated,
      inst_value = [], inst_annotations = []\<rparr>"

definition mergedObject :: ObjectType where
  "mergedObject = ObjectType baseElemID
     [(''field1'', Field baseElemID ''field1'' BuiltinSTRING [(''label'', VString ''update1'')]),
      (''field2'', Field baseElemID ''field2'' BuiltinSTRING [(''label'', VString ''update2'')])]
     [(''_default'', VMap [(''field1'', VString ''base1''), (''field2'', VString ''base2'')]),
      (''anno1'', VString ''updated'')]
     [(''anno1'', BuiltinSTRING)] False"

definition strType :: PrimitiveType where
  "strType =
     PrimitiveType (mk_id ''salto'' ''string'') STRING [(''_default'', VString ''type'')] []"

definition duplicateType :: PrimitiveType where
  "duplicateType =
     PrimitiveType (mk_id ''salto'' ''string'') STRING [(''_default'', VString ''type'')] []"

definition nestedElemID :: ElemID where
  "nestedElemID = mk_id ''salto'' ''nested''"

definition nested :: ObjectType where
  "nested = ObjectType nestedElemID
     [(''field1'', Field nestedElemID ''field1'' (ConcretePrimitive strType)
                     [(''_default'', VString ''field1'')]),
      (''field2'', Field nestedElemID ''field2'' (ConcretePrimitive strType) []),
      (''base'', Field nestedElemID ''field2'' (ConcreteObject base) [])]
     [] [] False"

definition insID :: ElemID where
  "insID = mk_id ''salto'' ''nested.instance.ins''"

definition ins1 :: InstanceElement where
  "ins1 =
     \<lparr>inst_id = insID, inst_type = ConcreteObject nested,
      inst_value = [(''field1'', VString ''ins1''), (''field2'', VString ''ins1'')],
      inst_annotations = [(''anno'', VNumber 1)]\<rparr>"

definition ins2 :: InstanceElement where
  "ins2 =
     \<lparr>inst_id = insID, inst_type = ConcreteObject nested,
      inst_value =
        [(''base'', VMap [(''field1'', VString ''ins2''), (''field2'', VString ''ins2'')])],
      inst_annotations = [(''anno2'', VNumber 1)]\<rparr>"

definition shouldUseFieldDef :: InstanceElement where
  "shouldUseFieldDef =
     \<lparr>inst_id = insID, inst_type = ConcreteObject nested,
      inst_value = [(''field2'', VString ''ins1'')], inst_annotations = []\<rparr>"

definition shouldUseTypeDef :: InstanceElement where
  "shouldUseTypeDef =
     \<lparr>inst_id = insID, inst_type = ConcreteObject nested,
      inst_value = [(''field1'', VString ''ins1'')], inst_annotations = []\<rparr>"

definition conflicting :: InstanceElement where
  "conflicting = ins2\<lparr>inst_annotations := inst_annotations ins1\<rparr>"

definition recursiveElemID :: ElemID where
  "recursiveElemID = mk_id ''salto'' ''recursive''"

definition recursiveType :: ObjectType where
  "recursiveType = ObjectType recursiveElemID
     [(''field'', Field recursiveElemID ''field'' (Placeholder recursiveElemID) [])] [] [] False"

definition recursiveInstance :: InstanceElement where
  "recursiveInstance =
     \<lparr>inst_id = mk_id ''salto'' ''recursive.instance.ins'',
      inst_type = ConcreteObject recursiveType, inst_value = [], inst_annotations = []\<rparr>"

definition var1 :: Variable where
  "var1 = \<lparr>var_id = mk_id ''var'' ''varName'', var_value = VNumber 5\<rparr>"

definition var2 :: Variable where
  "var2 = \<lparr>var_id = mk_id ''var'' ''varName2'', var_value = VNumber 8\<rparr>"

text \<open>An instance with a null value, and the merged instances that are expected.\<close>

definition insNull :: InstanceElement where
  "insNull =
     \<lparr>inst_id = insID, inst_type = ConcreteObject nested,
      inst_value = [(''field1'', VNull)], inst_annotations = []\<rparr>"

definition mergedFieldDef :: InstanceElement where
  "mergedFieldDef =
     \<lparr>inst_id = insID, inst_type = ConcreteObject nested,
      inst_value =
        [(''field2'', VString ''ins1''),
         (''base'', VMap [(''field1'', VString ''ins2''), (''field2'', VString ''ins2'')]),
         (''field1'', VString ''field1'')],
      inst_annotations = [(''anno2'', VNumber 1)]\<rparr>"

definition mergedTypeDef :: InstanceElement where
  "mergedTypeDef =
     \<lparr>inst_id = insID, inst_type = ConcreteObject nested,
      inst_value =
        [(''field1'', VString ''ins1''),
         (''base'', VMap [(''field1'', VString ''ins2''), (''field2'', VString ''ins2'')]),
         (''field2'', VString ''type'')],
      inst_annotations = [(''anno2'', VNumber 1)]\<rparr>"

definition mergedNull :: InstanceElement where
  "mergedNull =
     \<lparr>inst_id = insID, inst_type = ConcreteObject nested,
      inst_value =
        [(''field1'', VNull), (''field2'', VString ''type''),
         (''base'', VMap [(''field1'', VString ''base1''), (''field2'', VString ''base2'')])],
      inst_annotations = []\<rparr>"

definition ex_elements :: "Elem list" where
  "ex_elements =
     [ObjectElem update1, PrimitiveElem strType, ObjectElem base, InstanceElem ins1,
      ObjectElem update2, PrimitiveElem duplicateType, InstanceElem ins2, ObjectElem nested]"


section \<open>Properties\<close>

subsection \<open>Changes\<close>

lemma getChangeElement_diffs:
  "getChangeElement (AdditionDiff a) = Some a"
  "getChangeElement (ModificationDiff b a) = Some a"
  "getChangeElement (RemovalDiff b) = Some b"
  by (simp_all add: getChangeElement_def AdditionDiff_def ModificationDiff_def RemovalDiff_def)

text \<open>
  C8. \<open>getChangeElement\<close> returns \<open>data.before\<close> of a change whose action is
  \<open>remove\<close>, and \<open>data.after\<close> of a change whose action is \<open>add\<close> or \<open>modify\<close>.
\<close>

theorem getChangeElement_by_action:
  "getChangeElement change =
     (case action change of
        Remove \<Rightarrow> before (data change)
      | Add \<Rightarrow> after (data change)
      | Modify \<Rightarrow> after (data change))"
  by (cases "action change") (simp_all add: getChangeElement_def)

subsection \<open>Errors of a workspace\<close>

text \<open>
  C9. \<open>hasErrors\<close> holds exactly when one of the three lists of parse, merge and
  validation errors is not empty.
\<close>

theorem hasErrors_iff:
  "hasErrors e \<longleftrightarrow> parse e \<noteq> [] \<or> merge e \<noteq> [] \<or> validation e \<noteq> []"
  by (simp add: hasErrors_def)

subsection \<open>Elapsed time in the formatter\<close>

lemma getElapsedTime_div: "getElapsedTime now start = - ((start - now) div 1000)"
proof -
  have "\<lceil>(of_int (now - start) :: rat) / of_int 1000\<rceil> = - ((- (now - start)) div 1000)"
    by (simp only: ceiling_divide_eq_div)
  then show ?thesis by (simp add: getElapsedTime_def)
qed

lemma js_rem_zero: "js_rem 0 b = 0"
  by (simp add: js_rem_def)

lemma show_int_zero: "show_int 0 = ''0''"
  by (simp add: show_int_def show_nat.simps digit_char_def)

lemma createActionInProgressOutput_constant:
  "createActionInProgressOutput body STARTACTION now act start =
     (case planItemName act of
        Inl e \<Rightarrow> Inl e
      | Inr nm \<Rightarrow>
          Inr (body (nm @ '': Still '' @ STARTACTION (action (parent act))
                     @ ''... (0s elapsed)'')))"
  by (cases "planItemName act")
    (simp_all add: createActionInProgressOutput_def js_rem_zero show_int_zero Let_def)

subsection \<open>The errors of a workspace with their source fragments\<close>

lemma map_throwing_total:
  "(\<And>x. x \<in> set xs \<Longrightarrow> \<exists>y. f x = Inr y) \<Longrightarrow> \<exists>ys. map_throwing f xs = Inr ys"
proof (induction xs)
  case Nil
  then show ?case by simp
next
  case (Cons x xs)
  then obtain y where "f x = Inr y" by fastforce
  moreover from Cons obtain ys where "map_throwing f xs = Inr ys" by fastforce
  ultimately show ?case by simp
qed

lemma map_throwing_member:
  "map_throwing f xs = Inr ys \<Longrightarrow> y \<in> set ys \<Longrightarrow> \<exists>x\<in>set xs. f x = Inr y"
  by (induction xs arbitrary: ys) (auto split: sum.splits)

lemma map_throwing_project:
  assumes "map_throwing f xs = Inr ys" and "\<And>x y. x \<in> set xs \<Longrightarrow> f x = Inr y \<Longrightarrow> h y = k x"
  shows "map h ys = map k xs"
  using assms by (induction xs arbitrary: ys) (auto split: sum.splits)

lemma resolveSourceFragment_total:
  "rangeResolves st sr \<Longrightarrow> \<exists>sf. resolveSourceFragment st sr = Inr sf"
  by (auto simp: rangeResolves_def resolveSourceFragment_def)

lemma resolve_all_total:
  "list_all (rangeResolves st) rs \<Longrightarrow> \<exists>sfs. map_throwing (resolveSourceFragment st) rs = Inr sfs"
  by (rule map_throwing_total) (simp add: list_all_iff resolveSourceFragment_total)

lemma parseError_total:
  "rangeResolves st (subject pe) \<Longrightarrow> \<exists>w. parseErrorToWorkspaceError st pe = Inr w"
  using resolveSourceFragment_total [of st "subject pe"]
  by (auto simp: parseErrorToWorkspaceError_def)

lemma mergeError_total:
  "list_all (rangeResolves st) (sourceRangesOf st (me_elemID me))
   \<Longrightarrow> \<exists>w. mergeErrorToWorkspaceError st me = Inr w"
  using resolve_all_total [of st "sourceRangesOf st (me_elemID me)"]
  by (auto simp: mergeErrorToWorkspaceError_def)

lemma validationError_total:
  "list_all (rangeResolves st) (sourceRangesOf st (ve_elemID ve))
   \<Longrightarrow> \<exists>w. validationErrorToWorkspaceError st ve = Inr w"
  using resolve_all_total [of st "sourceRangesOf st (ve_elemID ve)"]
  by (auto simp: validationErrorToWorkspaceError_def)

lemma parseError_result:
  "parseErrorToWorkspaceError st pe = Inr w
   \<Longrightarrow> cause w = ParseCause pe \<and> severity w = Error \<and> error w = detail pe"
  by (auto simp: parseErrorToWorkspaceError_def split: sum.splits)

lemma mergeError_result:
  "mergeErrorToWorkspaceError st me = Inr w
   \<Longrightarrow> cause w = MergeCause me \<and> severity w = Error \<and> error w = me_message me"
  by (auto simp: mergeErrorToWorkspaceError_def split: sum.splits)

lemma validationError_result:
  "validationErrorToWorkspaceError st ve = Inr w
   \<Longrightarrow> cause w = ValidationCause ve \<and> severity w = calculateValidationSeverity ve
       \<and> error w = ve_message ve"
  by (auto simp: validationErrorToWorkspaceError_def split: sum.splits)

lemma calculateValidationSeverity_class:
  "calculateValidationSeverity ve =
     (if ve_class ve = UnresolvedReferenceValidationError then Error else Warning)"
  by (simp add: calculateValidationSeverity_def SeverValidationErrors_def instanceof_def)

lemma getWorkspaceErrors_Inr:
  assumes "getWorkspaceErrors st = Inr ws"
  obtains ps ms vs where
    "map_throwing (parseErrorToWorkspaceError st) (parse (state_errors st)) = Inr ps"
    "map_throwing (mergeErrorToWorkspaceError st) (merge (state_errors st)) = Inr ms"
    "map_throwing (validationErrorToWorkspaceError st) (validation (state_errors st)) = Inr vs"
    "ws = ps @ ms @ vs"
  using assms by (auto simp: getWorkspaceErrors_def Let_def split: sum.splits)

text \<open>
  C4. Every workspace error that \<open>getWorkspaceErrors\<close> returns has severity \<open>Error\<close>
  when its cause is a parse error, a merge error or a validation error of class
  \<open>UnresolvedReferenceValidationError\<close>, and severity \<open>Warning\<close> when its cause is a
  validation error of any other class.
\<close>

theorem getWorkspaceErrors_severity:
  assumes "getWorkspaceErrors st = Inr ws" and "w \<in> set ws"
  shows "severity w =
           (case cause w of
              ParseCause pe \<Rightarrow> Error
            | MergeCause me \<Rightarrow> Error
            | ValidationCause ve \<Rightarrow>
                (if ve_class ve = UnresolvedReferenceValidationError then Error else Warning))"
proof -
  from assms(1) obtain ps ms vs where
    ps: "map_throwing (parseErrorToWorkspaceError st) (parse (state_errors st)) = Inr ps" and
    ms: "map_throwing (mergeErrorToWorkspaceError st) (merge (state_errors st)) = Inr ms" and
    vs: "map_throwing (validationErrorToWorkspaceError st) (validation (state_errors st)) = Inr vs" and
    ws: "ws = ps @ ms @ vs"
    by (rule getWorkspaceErrors_Inr)
  from assms(2) ws consider "w \<in> set ps" | "w \<in> set ms" | "w \<in> set vs" by auto
  then show ?thesis
  proof cases
    case 1
    with ps obtain pe where "parseErrorToWorkspaceError st pe = Inr w"
      using map_throwing_member by fastforce
    then show ?thesis using parseError_result by fastforce
  next
    case 2
    with ms obtain me where "mergeErrorToWorkspaceError st me = Inr w"
      using map_throwing_member by fastforce
    then show ?thesis using mergeError_result by fastforce
  next
    case 3
    with vs obtain ve where "validationErrorToWorkspaceError st ve = Inr w"
      using map_throwing_member by fastforce
    then show ?thesis
      using validationError_result calculateValidationSeverity_class by fastforce
  qed
qed

text \<open>
  In a workspace state all of whose ranges resolve, \<open>getWorkspaceErrors\<close> returns one
  workspace error for each underlying error: the causes of the result are the parse
  errors, then the merge errors, then the validation errors, each in its order, and its
  length is the sum of the three lengths.
\<close>

lemma getWorkspaceErrors_one_per_error:
  assumes "rangesResolve st"
  shows "\<exists>ws. getWorkspaceErrors st = Inr ws
          \<and> map cause ws =
              map ParseCause (parse (state_errors st))
              @ map MergeCause (merge (state_errors st))
              @ map ValidationCause (validation (state_errors st))
          \<and> length ws =
              length (parse (state_errors st)) + length (merge (state_errors st))
              + length (validation (state_errors st))"
proof -
  from assms obtain ps where
    ps: "map_throwing (parseErrorToWorkspaceError st) (parse (state_errors st)) = Inr ps"
    using map_throwing_total [of "parse (state_errors st)" "parseErrorToWorkspaceError st"]
    by (auto simp: rangesResolve_def list_all_iff parseError_total)
  from assms obtain ms where
    ms: "map_throwing (mergeErrorToWorkspaceError st) (merge (state_errors st)) = Inr ms"
    using map_throwing_total [of "merge (state_errors st)" "mergeErrorToWorkspaceError st"]
    by (auto simp: rangesResolve_def list_all_iff mergeError_total)
  from assms obtain vs where
    vs: "map_throwing (validationErrorToWorkspaceError st) (validation (state_errors st)) = Inr vs"
    using map_throwing_total [of "validation (state_errors st)" "validationErrorToWorkspaceError st"]
    by (auto simp: rangesResolve_def list_all_iff validationError_total)
  have r: "getWorkspaceErrors st = Inr (ps @ ms @ vs)"
    by (simp add: getWorkspaceErrors_def ps ms vs)
  have cp: "map cause ps = map ParseCause (parse (state_errors st))"
    by (rule map_throwing_project [OF ps]) (simp add: parseError_result)
  have cm: "map cause ms = map MergeCause (merge (state_errors st))"
    by (rule map_throwing_project [OF ms]) (simp add: mergeError_result)
  have cv: "map cause vs = map ValidationCause (validation (state_errors st))"
    by (rule map_throwing_project [OF vs]) (simp add: validationError_result)
  have c: "map cause (ps @ ms @ vs) =
             map ParseCause (parse (state_errors st))
             @ map MergeCause (merge (state_errors st))
             @ map ValidationCause (validation (state_errors st))"
    by (simp add: cp cm cv)
  from c have "length (map cause (ps @ ms @ vs)) =
      length (map ParseCause (parse (state_errors st))
             @ map MergeCause (merge (state_errors st))
             @ map ValidationCause (validation (state_errors st)))"
    by (rule arg_cong)
  then have l: "length (ps @ ms @ vs) =
      length (parse (state_errors st)) + length (merge (state_errors st))
      + length (validation (state_errors st))"
    by simp
  from r c l show ?thesis by blast
qed

lemma map_throwing_defined:
  "map_throwing f xs = Inr ys \<Longrightarrow> x \<in> set xs \<Longrightarrow> \<exists>y. f x = Inr y"
  by (induction xs arbitrary: ys) (auto split: sum.splits)

lemma resolveSourceFragment_Inr:
  "resolveSourceFragment st sr = Inr sf \<Longrightarrow> rangeResolves st sr"
  by (auto simp: rangeResolves_def resolveSourceFragment_def split: option.splits)

lemma resolve_all_Inr:
  assumes "map_throwing (resolveSourceFragment st) rs = Inr sfs"
  shows "list_all (rangeResolves st) rs"
  unfolding list_all_iff
proof
  fix sr assume "sr \<in> set rs"
  with assms obtain sf where "resolveSourceFragment st sr = Inr sf"
    using map_throwing_defined by fastforce
  then show "rangeResolves st sr" by (rule resolveSourceFragment_Inr)
qed

lemma parseError_Inr:
  "parseErrorToWorkspaceError st pe = Inr w \<Longrightarrow> rangeResolves st (subject pe)"
  by (auto simp: parseErrorToWorkspaceError_def split: sum.splits
           intro: resolveSourceFragment_Inr)

lemma mergeError_Inr:
  "mergeErrorToWorkspaceError st me = Inr w
   \<Longrightarrow> list_all (rangeResolves st) (sourceRangesOf st (me_elemID me))"
  by (auto simp: mergeErrorToWorkspaceError_def split: sum.splits intro: resolve_all_Inr)

lemma validationError_Inr:
  "validationErrorToWorkspaceError st ve = Inr w
   \<Longrightarrow> list_all (rangeResolves st) (sourceRangesOf st (ve_elemID ve))"
  by (auto simp: validationErrorToWorkspaceError_def split: sum.splits intro: resolve_all_Inr)

lemma getWorkspaceErrors_Inr_resolves:
  assumes "getWorkspaceErrors st = Inr ws"
  shows "rangesResolve st"
proof -
  from assms obtain ps ms vs where
    ps: "map_throwing (parseErrorToWorkspaceError st) (parse (state_errors st)) = Inr ps" and
    ms: "map_throwing (mergeErrorToWorkspaceError st) (merge (state_errors st)) = Inr ms" and
    vs: "map_throwing (validationErrorToWorkspaceError st) (validation (state_errors st)) = Inr vs"
    by (rule getWorkspaceErrors_Inr)
  have "list_all (\<lambda>pe. rangeResolves st (subject pe)) (parse (state_errors st))"
    unfolding list_all_iff using map_throwing_defined [OF ps] parseError_Inr by blast
  moreover have "list_all (\<lambda>me. list_all (rangeResolves st) (sourceRangesOf st (me_elemID me)))
      (merge (state_errors st))"
    unfolding list_all_iff using map_throwing_defined [OF ms] mergeError_Inr
    by (metis list_all_iff)
  moreover have "list_all (\<lambda>ve. list_all (rangeResolves st) (sourceRangesOf st (ve_elemID ve)))
      (validation (state_errors st))"
    unfolding list_all_iff using map_throwing_defined [OF vs] validationError_Inr
    by (metis list_all_iff)
  ultimately show ?thesis by (simp add: rangesResolve_def)
qed

lemma getWorkspaceErrors_throws:
  assumes "\<not> rangesResolve st"
  shows "getWorkspaceErrors st = Inl TypeError"
proof (cases "getWorkspaceErrors st")
  case (Inl e)
  then show ?thesis by (cases e) simp
next
  case (Inr ws)
  with assms show ?thesis using getWorkspaceErrors_Inr_resolves by blast
qed

subsection \<open>States that are built\<close>

lemma createWorkspaceState_parts:
  "parsedBlueprints (createWorkspaceState mg vd ct bps) = keyByFilename bps"
  "state_sourceMap (createWorkspaceState mg vd ct bps) = mergeSourceMaps bps"
  "parse (state_errors (createWorkspaceState mg vd ct bps)) = concat (map errors bps)"
  by (simp_all add: createWorkspaceState_def Let_def split: prod.splits)

lemma fold_keyBy_dom:
  "dom (fold (\<lambda>bp m. m(filename bp \<mapsto> bp)) bps m0) = dom m0 \<union> filename ` set bps"
  by (induction bps arbitrary: m0) auto

lemma keyByFilename_dom: "dom (keyByFilename bps) = filename ` set bps"
  by (simp add: keyByFilename_def fold_keyBy_dom)

lemma mergeSourceMaps_ranges:
  assumes "mergeSourceMaps bps key = Some rs" and "sr \<in> set rs"
  shows "\<exists>bp \<in> set bps. \<exists>ranges. sourceMap bp key = Some ranges \<and> sr \<in> set ranges"
proof -
  from assms have "sr \<in> set (concat (map (\<lambda>bp. case sourceMap bp key of
      None \<Rightarrow> [] | Some ranges \<Rightarrow> ranges) bps))"
    by (auto simp: mergeSourceMaps_def split: if_splits)
  then obtain bp where "bp \<in> set bps"
    "sr \<in> set (case sourceMap bp key of None \<Rightarrow> [] | Some ranges \<Rightarrow> ranges)"
    by auto
  then show ?thesis by (cases "sourceMap bp key") auto
qed

text \<open>
  A blueprint keeps to its file when the subject of each of its parse errors and each
  range of its source map names the blueprint's own file. A state built from such
  blueprints has no range without a buffer, whatever the merger and the validator
  report.
\<close>

lemma createWorkspaceState_resolves:
  assumes own_errors:
      "\<And>bp pe. bp \<in> set bps \<Longrightarrow> pe \<in> set (errors bp)
         \<Longrightarrow> range_filename (subject pe) = filename bp"
    and own_ranges:
      "\<And>bp key ranges sr. bp \<in> set bps \<Longrightarrow> sourceMap bp key = Some ranges
         \<Longrightarrow> sr \<in> set ranges \<Longrightarrow> range_filename sr = filename bp"
  shows "rangesResolve (createWorkspaceState mg vd ct bps)"
proof -
  let ?st = "createWorkspaceState mg vd ct bps"
  have key: "\<And>bp. bp \<in> set bps \<Longrightarrow> parsedBlueprints ?st (filename bp) \<noteq> None"
  proof -
    fix bp assume "bp \<in> set bps"
    then have "filename bp \<in> dom (keyByFilename bps)"
      by (simp add: keyByFilename_dom)
    then show "parsedBlueprints ?st (filename bp) \<noteq> None"
      by (auto simp: createWorkspaceState_parts)
  qed
  have p: "\<And>pe. pe \<in> set (parse (state_errors ?st)) \<Longrightarrow> rangeResolves ?st (subject pe)"
  proof -
    fix pe assume "pe \<in> set (parse (state_errors ?st))"
    then obtain bp where "bp \<in> set bps" "pe \<in> set (errors bp)"
      by (auto simp: createWorkspaceState_parts)
    then show "rangeResolves ?st (subject pe)"
      using own_errors key by (simp add: rangeResolves_def)
  qed
  have r: "\<And>eid sr. sr \<in> set (sourceRangesOf ?st eid) \<Longrightarrow> rangeResolves ?st sr"
  proof -
    fix eid sr assume a: "sr \<in> set (sourceRangesOf ?st eid)"
    then obtain rs where "mergeSourceMaps bps (getFullName eid) = Some rs" "sr \<in> set rs"
      by (cases "mergeSourceMaps bps (getFullName eid)")
        (auto simp: sourceRangesOf_def createWorkspaceState_parts)
    then obtain bp ranges where "bp \<in> set bps" "sourceMap bp (getFullName eid) = Some ranges"
      "sr \<in> set ranges"
      using mergeSourceMaps_ranges by blast
    then show "rangeResolves ?st sr"
      using own_ranges key by (simp add: rangeResolves_def)
  qed
  from p r show ?thesis
    by (simp add: rangesResolve_def list_all_iff)
qed

text \<open>
  C10. A workspace built from the one blueprint \<open>a.bp\<close>, whose parse error has its
  subject in \<open>b.bp\<close>: the state holds one parse error, no blueprint has the name
  \<open>b.bp\<close>, and \<open>getWorkspaceErrors\<close> throws instead of returning one workspace error
  (whatever the merger, the validator and the built-in config type are).
\<close>

theorem getWorkspaceErrors_misfiled_range:
  "parse (state_errors (createWorkspaceState mg vd ct [ex_misfiled_bp])) = errors ex_misfiled_bp
   \<and> length (errors ex_misfiled_bp) = 1
   \<and> parsedBlueprints (createWorkspaceState mg vd ct [ex_misfiled_bp]) ''b.bp'' = None
   \<and> getWorkspaceErrors (createWorkspaceState mg vd ct [ex_misfiled_bp]) = Inl TypeError"
proof -
  let ?st = "createWorkspaceState mg vd ct [ex_misfiled_bp]"
  have p: "parse (state_errors ?st) = errors ex_misfiled_bp"
    by (simp add: createWorkspaceState_parts)
  have k: "parsedBlueprints ?st ''b.bp'' = None"
    by (simp add: createWorkspaceState_parts keyByFilename_def ex_misfiled_bp_def)
  have e: "errors ex_misfiled_bp
      = [\<lparr>subject = ex_range ''b.bp'' 18 19, detail = ''unexpected token''\<rparr>]"
    by (simp add: ex_misfiled_bp_def)
  have "resolveSourceFragment ?st (ex_range ''b.bp'' 18 19) = Inl TypeError"
    using k by (simp add: resolveSourceFragment_def ex_range_def)
  then have "map_throwing (parseErrorToWorkspaceError ?st) (parse (state_errors ?st))
      = Inl TypeError"
    by (simp add: p e parseErrorToWorkspaceError_def)
  then have g: "getWorkspaceErrors ?st = Inl TypeError"
    by (simp add: getWorkspaceErrors_def Let_def)
  from p k g e show ?thesis by simp
qed

subsection \<open>Flushing\<close>

lemma fold_flushStep_ops:
  "fr_ops (fold (flushStep pj pd now ws) fs acc)
     = fr_ops acc
       @ concat (map (\<lambda>g. case flushOne pj pd now ws g of Inl e \<Rightarrow> [] | Inr issued \<Rightarrow> issued) fs)"
  by (induction fs arbitrary: acc) (auto simp: flushStep_def split: sum.splits)

lemma fold_flushStep_outcome:
  "fr_outcome (fold (flushStep pj pd now ws) fs acc) = Inr ()
   \<longleftrightarrow> fr_outcome acc = Inr () \<and> (\<forall>g \<in> set fs. \<exists>issued. flushOne pj pd now ws g = Inr issued)"
  by (induction fs arbitrary: acc) (auto simp: flushStep_def split: sum.splits)

lemma fold_flushStep_dirty:
  "\<forall>g \<in> set fs. \<exists>issued. flushOne pj pd now ws g = Inr issued
   \<Longrightarrow> fr_dirty (fold (flushStep pj pd now ws) fs acc) = filter (\<lambda>x. x \<notin> set fs) (fr_dirty acc)"
proof (induction fs arbitrary: acc)
  case Nil
  then show ?case by simp
next
  case (Cons f fs)
  have "filter (\<lambda>x. x \<notin> set fs) (removeAll f d) = filter (\<lambda>x. x \<notin> set (f # fs)) d" for d
    by (induction d) auto
  with Cons show ?case by (auto simp: flushStep_def)
qed

text \<open>A flush completes exactly when no dirty name reads an inherited member.\<close>

lemma flushOne_throws_iff:
  "(\<exists>e. flushOne pj pd now ws f = Inl e)
   \<longleftrightarrow> js_get (parsedBlueprints (state ws)) f = Inherited"
  by (cases "js_get (parsedBlueprints (state ws)) f")
    (simp_all add: flushOne_def isNewConfig_def Let_def)

lemma flush_completes_iff:
  "fr_outcome (flush pj pd now ws) = Inr ()
   \<longleftrightarrow> (\<forall>f \<in> set (dirtyBlueprints ws). js_get (parsedBlueprints (state ws)) f \<noteq> Inherited)"
proof -
  have "(\<exists>issued. flushOne pj pd now ws f = Inr issued)
      \<longleftrightarrow> js_get (parsedBlueprints (state ws)) f \<noteq> Inherited" for f
    using flushOne_throws_iff [of pj pd now ws f]
    by (cases "flushOne pj pd now ws f") auto
  then show ?thesis
    by (simp add: flush_def fold_flushStep_outcome)
qed

lemma flushOne_absent:
  assumes "flushOne pj pd now ws f = Inr issued" and "parsedBlueprints (state ws) f = None"
  shows "issued = [Rm (pj (baseDir (config ws)) f)]"
  using assms
  by (auto simp: flushOne_def isNewConfig_def js_get_def Let_def split: if_splits)

lemma flushOne_present:
  assumes "parsedBlueprints (state ws) f = Some bp"
  shows "\<exists>rest. flushOne pj pd now ws f =
           Inr (Mkdirp (pd (if length (elements bp) = 1
                               \<and> isConfig (elemID (elements bp ! 0))
                               \<and> filename bp = pj CREDS_DIR (adapter (elemID (elements bp ! 0)) @ ''.bp'')
                             then pj (localStorage (config ws)) f
                             else pj (baseDir (config ws)) f))
                # WriteTextFile
                    (if length (elements bp) = 1
                        \<and> isConfig (elemID (elements bp ! 0))
                        \<and> filename bp = pj CREDS_DIR (adapter (elemID (elements bp ! 0)) @ ''.bp'')
                     then pj (localStorage (config ws)) f
                     else pj (baseDir (config ws)) f)
                    (buffer bp)
                # rest)"
  using assms by (simp add: flushOne_def isNewConfig_def js_get_def Let_def)

text \<open>
  C6, amended. Let a flush complete, and take a dirty file name. When the name has no
  parsed blueprint and is not of the form \<open>credentials/<adapter>.bp\<close>, its file, which
  is the one under \<open>baseDir\<close>, has been deleted. When the name has a parsed blueprint,
  the buffer of the blueprint has been written: under \<open>localStorage\<close> when the blueprint
  holds exactly one element, that element is a config object and the blueprint's file
  name is \<open>credentials/<adapter>.bp\<close>, and under \<open>baseDir\<close> in every other case.
  Afterwards no file name is dirty. (Which file is removed for a removed blueprint of
  the name \<open>credentials/<adapter>.bp\<close> is left open here.)
\<close>

theorem flush_deletes_or_writes:
  assumes "fr_outcome (flush pj pd now ws) = Inr ()" and "f \<in> set (dirtyBlueprints ws)"
  shows "(parsedBlueprints (state ws) f = None \<and> (\<forall>a. f \<noteq> pj CREDS_DIR (a @ ''.bp''))
            \<longrightarrow> Rm (pj (baseDir (config ws)) f) \<in> set (fr_ops (flush pj pd now ws)))
       \<and> (\<forall>bp. parsedBlueprints (state ws) f = Some bp
            \<longrightarrow> WriteTextFile
                  (if length (elements bp) = 1
                      \<and> isConfig (elemID (elements bp ! 0))
                      \<and> filename bp = pj CREDS_DIR (adapter (elemID (elements bp ! 0)) @ ''.bp'')
                   then pj (localStorage (config ws)) f
                   else pj (baseDir (config ws)) f)
                  (buffer bp)
                \<in> set (fr_ops (flush pj pd now ws)))
       \<and> fr_dirty (flush pj pd now ws) = []"
proof -
  from assms(1) have all: "\<forall>g \<in> set (dirtyBlueprints ws). \<exists>issued. flushOne pj pd now ws g = Inr issued"
    by (simp add: flush_def fold_flushStep_outcome)
  with assms(2) obtain issued where i: "flushOne pj pd now ws f = Inr issued"
    by blast
  have sub: "set issued \<subseteq> set (fr_ops (flush pj pd now ws))"
  proof
    fix x assume "x \<in> set issued"
    with i assms(2) show "x \<in> set (fr_ops (flush pj pd now ws))"
      by (force simp: flush_def fold_flushStep_ops)
  qed
  have del: "parsedBlueprints (state ws) f = None
      \<Longrightarrow> Rm (pj (baseDir (config ws)) f) \<in> set issued"
    using flushOne_absent [OF i] by simp
  have wr: "parsedBlueprints (state ws) f = Some bp
      \<Longrightarrow> WriteTextFile
                  (if length (elements bp) = 1
                      \<and> isConfig (elemID (elements bp ! 0))
                      \<and> filename bp = pj CREDS_DIR (adapter (elemID (elements bp ! 0)) @ ''.bp'')
                   then pj (localStorage (config ws)) f
                   else pj (baseDir (config ws)) f)
                  (buffer bp)
            \<in> set issued" for bp
    using flushOne_present [of ws f bp pj pd now] i by auto
  have dirty: "fr_dirty (flush pj pd now ws) = []"
    using fold_flushStep_dirty [OF all] by (simp add: flush_def)
  from sub del wr dirty show ?thesis by blast
qed

subsection \<open>The definitions at work\<close>

lemmas ex_defs =
  ex_join_def ex_dirname_def ex_range_def ex_base_id_def ex_config_id_def ex_parse_error_def
  ex_base_bp_def ex_creds_bp_def ex_foo_bp_def ex_merge_error_def ex_unresolved_def
  ex_invalid_def ex_errors_def ex_state_def ex_workspace_errors_def ex_misfiled_bp_def ex_foo_workspace_def
  ex_constructor_workspace_def
  ex_workspace_def ex_item_def ex_STARTACTION_def ex_ENDACTION_def

lemmas workspace_defs =
  getWorkspaceErrors_def parseErrorToWorkspaceError_def mergeErrorToWorkspaceError_def
  validationErrorToWorkspaceError_def resolveSourceFragment_def sourceRangesOf_def
  calculateValidationSeverity_def SeverValidationErrors_def instanceof_def substring_def

lemma ex_getWorkspaceErrors: "getWorkspaceErrors ex_state = Inr ex_workspace_errors"
  by (simp add: ex_defs workspace_defs)

lemma ex_rangesResolve: "rangesResolve ex_state"
  by (simp add: ex_defs rangesResolve_def rangeResolves_def sourceRangesOf_def)

theorem hasErrors_iff_witness:
  "hasErrors ex_errors \<and> \<not> hasErrors \<lparr>parse = [], merge = [], validation = []\<rparr>"
  using hasErrors_iff [of ex_errors]
    hasErrors_iff [of "\<lparr>parse = [], merge = [], validation = []\<rparr>"]
  by (simp add: ex_errors_def)

theorem getWorkspaceErrors_severity_witness:
  "getWorkspaceErrors ex_state = Inr ex_workspace_errors
   \<and> map severity ex_workspace_errors = [Error, Error, Error, Warning]"
proof -
  have r: "getWorkspaceErrors ex_state = Inr ex_workspace_errors"
    by (rule ex_getWorkspaceErrors)
  have m: "ex_workspace_errors ! 3 \<in> set ex_workspace_errors"
    by (simp add: ex_workspace_errors_def)
  from getWorkspaceErrors_severity [OF r m] r show ?thesis
    by (simp add: ex_workspace_errors_def)
qed

lemma ex_one_per_error:
  "rangesResolve ex_state \<and> getWorkspaceErrors ex_state = Inr ex_workspace_errors
   \<and> length ex_workspace_errors = 4
   \<and> map cause ex_workspace_errors =
       [ParseCause ex_parse_error, MergeCause ex_merge_error,
        ValidationCause ex_unresolved, ValidationCause ex_invalid]"
  using getWorkspaceErrors_one_per_error [OF ex_rangesResolve] ex_rangesResolve
    ex_getWorkspaceErrors
  by (simp add: ex_workspace_errors_def)

lemmas flush_defs =
  flush_def flushStep_def flushOne_def isNewConfig_def js_get_def objectPrototypeNames_def
  CREDS_DIR_def

lemma ex_flush:
  "flush ex_join ex_dirname 0 ex_workspace =
     \<lparr>fr_ops =
        [Mkdirp ''home/credentials'',
         WriteTextFile ''home/credentials/salesforce.bp'' ''salesforce { }'',
         Mkdirp ''ws'',
         WriteTextFile ''ws/foo.bp'' ''salesforce { token = 1 }'',
         Rm ''ws/gone.bp''],
      fr_dirty = [], fr_outcome = Inr ()\<rparr>"
  by (simp add: flush_defs ex_defs)

theorem flush_deletes_or_writes_witness:
  "fr_outcome (flush ex_join ex_dirname 0 ex_workspace) = Inr ()
   \<and> ''gone.bp'' \<in> set (dirtyBlueprints ex_workspace)
   \<and> Rm ''ws/gone.bp'' \<in> set (fr_ops (flush ex_join ex_dirname 0 ex_workspace))
   \<and> WriteTextFile ''home/credentials/salesforce.bp'' ''salesforce { }''
       \<in> set (fr_ops (flush ex_join ex_dirname 0 ex_workspace))
   \<and> WriteTextFile ''ws/foo.bp'' ''salesforce { token = 1 }''
       \<in> set (fr_ops (flush ex_join ex_dirname 0 ex_workspace))
   \<and> fr_dirty (flush ex_join ex_dirname 0 ex_workspace) = []"
proof -
  have c: "fr_outcome (flush ex_join ex_dirname 0 ex_workspace) = Inr ()"
    by (simp add: ex_flush)
  have d: "''gone.bp'' \<in> set (dirtyBlueprints ex_workspace)"
    by (simp add: ex_workspace_def)
  have n: "\<forall>a. ''gone.bp'' \<noteq> ex_join CREDS_DIR (a @ ''.bp'')"
    by (simp add: ex_join_def CREDS_DIR_def)
  have a: "parsedBlueprints (state ex_workspace) ''gone.bp'' = None"
    by (simp add: ex_workspace_def ex_state_def)
  from flush_deletes_or_writes [OF c d] n a c d show ?thesis
    by (simp add: ex_flush)
qed

text \<open>
  Only \<open>foo.bp\<close> is dirty. It holds a single config object, the flush completes, and
  the one file written is \<open>foo.bp\<close> under \<open>baseDir\<close>: nothing is written under
  \<open>localStorage\<close>, since the name of the blueprint is not the credentials file of its
  adapter.
\<close>

theorem flush_single_config_counterexample:
  "dirtyBlueprints ex_foo_workspace = [''foo.bp'']
   \<and> parsedBlueprints (state ex_foo_workspace) ''foo.bp'' = Some ex_foo_bp
   \<and> length (elements ex_foo_bp) = 1
   \<and> isConfig (elemID (elements ex_foo_bp ! 0))
   \<and> baseDir (config ex_foo_workspace) = ''ws''
   \<and> localStorage (config ex_foo_workspace) = ''home''
   \<and> flush ex_join ex_dirname 0 ex_foo_workspace =
       \<lparr>fr_ops = [Mkdirp ''ws'', WriteTextFile ''ws/foo.bp'' (buffer ex_foo_bp)],
        fr_dirty = [], fr_outcome = Inr ()\<rparr>"
  by (simp add: flush_defs ex_defs)

text \<open>
  A dirty name that the map of blueprints only inherits: the callback of
  \<open>constructor\<close> throws, nothing is issued for it and it stays dirty, the other name is
  flushed, and the flush is rejected.
\<close>

lemma ex_flush_constructor:
  "flush ex_join ex_dirname 0 ex_constructor_workspace =
     \<lparr>fr_ops = [Rm ''ws/gone.bp''], fr_dirty = [''constructor''], fr_outcome = Inl TypeError\<rparr>"
  by (simp add: flush_defs ex_defs)

text \<open>
  C7. Seven seconds after the start, the progress line of
  \<open>createActionInProgressOutput\<close> still reads "0s elapsed", while
  \<open>createItemDoneOutput\<close> reports the seven seconds of \<open>getElapsedTime\<close>.
\<close>

theorem createActionInProgressOutput_reports_zero:
  "getElapsedTime 7000 0 = 7
   \<and> createActionInProgressOutput id ex_STARTACTION 7000 ex_item 0
       = Inr ''salto.base: Still changing... (0s elapsed)''
   \<and> createItemDoneOutput ex_ENDACTION 7000 ex_item 0
       = Inr ''salto.base: Change completed after 7s''"
  by (simp add: getElapsedTime_div createActionInProgressOutput_constant createItemDoneOutput_def
      planItemName_def fullName_def getChangeElement_def ModificationDiff_def
      show_int_def show_nat.simps digit_char_def ex_defs)

subsection \<open>The merger: one element for an identifier\<close>

lemma gather_step_distinct:
  "distinct acc \<Longrightarrow>
   distinct (fold (\<lambda>e ids. if elemIDOf e \<in> set ids then ids else ids @ [elemIDOf e]) xs acc)"
  by (induction xs arbitrary: acc) auto

lemma gatherIDs_distinct: "distinct (gatherIDs xs)"
  by (simp add: gatherIDs_def gather_step_distinct)

lemma gather_step_set:
  "set (fold (\<lambda>e ids. if elemIDOf e \<in> set ids then ids else ids @ [elemIDOf e]) xs acc)
     = set acc \<union> elemIDOf ` set xs"
  by (induction xs arbitrary: acc) auto

lemma gatherIDs_set: "set (gatherIDs xs) = elemIDOf ` set xs"
  by (simp add: gatherIDs_def gather_step_set)

lemma objectsOf_set: "ob \<in> set (objectsOf es) \<longleftrightarrow> ObjectElem ob \<in> set es"
  by (induction es rule: objectsOf.induct) auto

lemma primitivesOf_set: "p \<in> set (primitivesOf es) \<longleftrightarrow> PrimitiveElem p \<in> set es"
  by (induction es rule: primitivesOf.induct) auto

lemma instancesOf_set: "i \<in> set (instancesOf es) \<longleftrightarrow> InstanceElem i \<in> set es"
  by (induction es rule: instancesOf.induct) auto

lemma variablesOf_set: "v \<in> set (variablesOf es) \<longleftrightarrow> VariableElem v \<in> set es"
  by (induction es rule: variablesOf.induct) auto

lemma mergeObjectDefinitions_id:
  assumes "mergeObjectDefinitions reason i decls = (Some e, errs)"
    and "\<And>ob. ob \<in> set decls \<Longrightarrow> obj_id ob = i"
  shows "elemIDOf e = i"
proof (cases "filter (\<lambda>ob. \<not> isUpdate ob) decls")
  case Nil
  with assms(1) show ?thesis by (simp add: mergeObjectDefinitions_def)
next
  case (Cons b bs)
  show ?thesis
  proof (cases bs)
    case Nil
    have "b \<in> set (filter (\<lambda>ob. \<not> isUpdate ob) decls)" using Cons by simp
    then have bi: "obj_id b = i" using assms(2) by simp
    from assms(1) Cons Nil have "\<exists>fds anns atypes st. e = ObjectElem (ObjectType (obj_id b) fds anns atypes st)"
      by (auto simp: mergeObjectDefinitions_def Let_def split: if_splits)
    then show ?thesis using bi by auto
  next
    case (Cons c cs)
    with assms(1) \<open>filter (\<lambda>ob. \<not> isUpdate ob) decls = b # bs\<close> show ?thesis
      by (simp add: mergeObjectDefinitions_def)
  qed
qed

lemma mergeInstanceDefinitions_shape:
  assumes "mergeInstanceDefinitions reason i insts = (Some e, errs)"
  shows "\<exists>first rest. insts = first # rest
          \<and> e = InstanceElem
                 \<lparr>inst_id = i, inst_type = inst_type first,
                  inst_value = injectDefaults (typeFields (inst_type first))
                                 (fst (mergeInstanceValues insts)),
                  inst_annotations = fst (mergeInstanceAnnotations insts)\<rparr>"
  using assms
  by (cases insts) (auto simp: mergeInstanceDefinitions_def Let_def split: prod.splits)

lemma mergePrimitives_member:
  "mergePrimitives reason i prims = (Some e, errs) \<Longrightarrow> \<exists>p \<in> set prims. e = PrimitiveElem p"
  by (auto simp: mergePrimitives_def split: list.splits)

lemma mergeVariables_member:
  "mergeVariables reason i vars = (Some e, errs) \<Longrightarrow> \<exists>v \<in> set vars. e = VariableElem v"
  by (auto simp: mergeVariables_def split: list.splits)

lemma mergeGroup_elemID:
  assumes "mergeGroup reason i es = (Some e, errs)" and "\<And>x. x \<in> set es \<Longrightarrow> elemIDOf x = i"
  shows "elemIDOf e = i"
proof (cases es)
  case Nil
  with assms(1) show ?thesis by (simp add: mergeGroup_def)
next
  case (Cons x rest)
  show ?thesis
  proof (cases x)
    case (ObjectElem ob)
    with Cons assms(1) have "mergeObjectDefinitions reason i (objectsOf es) = (Some e, errs)"
      by (simp add: mergeGroup_def)
    moreover have "\<And>ob. ob \<in> set (objectsOf es) \<Longrightarrow> obj_id ob = i"
      using assms(2) objectsOf_set by fastforce
    ultimately show ?thesis by (rule mergeObjectDefinitions_id)
  next
    case (PrimitiveElem p)
    with Cons assms(1) have "mergePrimitives reason i (primitivesOf es) = (Some e, errs)"
      by (simp add: mergeGroup_def)
    then obtain q where "q \<in> set (primitivesOf es)" "e = PrimitiveElem q"
      using mergePrimitives_member by blast
    then show ?thesis using assms(2) primitivesOf_set by fastforce
  next
    case (InstanceElem inst)
    with Cons assms(1) have "mergeInstanceDefinitions reason i (instancesOf es) = (Some e, errs)"
      by (simp add: mergeGroup_def)
    then show ?thesis using mergeInstanceDefinitions_shape by fastforce
  next
    case (VariableElem v)
    with Cons assms(1) have "mergeVariables reason i (variablesOf es) = (Some e, errs)"
      by (simp add: mergeGroup_def)
    then obtain w where "w \<in> set (variablesOf es)" "e = VariableElem w"
      using mergeVariables_member by blast
    then show ?thesis using assms(2) variablesOf_set by fastforce
  qed
qed

lemma merged_ids:
  assumes "\<And>i e. i \<in> set ids \<Longrightarrow> fst (g i) = Some e \<Longrightarrow> f e = i"
  shows "map f (List.map_filter fst (map g ids)) = filter (\<lambda>i. fst (g i) \<noteq> None) ids"
  using assms
proof (induction ids)
  case Nil
  then show ?case by (simp add: List.map_filter_simps)
next
  case (Cons i ids)
  then show ?case
    by (cases "fst (g i)") (auto simp: List.map_filter_simps)
qed

lemma mergeElements_ids:
  "map elemIDOf (fst (mergeElements reason xs))
     = filter (\<lambda>i. fst (mergeGroup reason i (groupOf i xs)) \<noteq> None) (gatherIDs xs)"
proof -
  have "\<And>i e. fst (mergeGroup reason i (groupOf i xs)) = Some e \<Longrightarrow> elemIDOf e = i"
  proof -
    fix i e assume a: "fst (mergeGroup reason i (groupOf i xs)) = Some e"
    then obtain errs where "mergeGroup reason i (groupOf i xs) = (Some e, errs)"
      by (cases "mergeGroup reason i (groupOf i xs)") simp
    then show "elemIDOf e = i"
      by (rule mergeGroup_elemID) (simp add: groupOf_def)
  qed
  then show ?thesis
    by (simp add: mergeElements_def Let_def merged_ids)
qed

text \<open>
  C2. The merged elements of \<open>mergeElements\<close> hold at most one element for an
  identifier: their identifiers are pairwise different, so two different merged
  elements never share one.
\<close>

theorem mergeElements_one_per_ElemID:
  "distinct (map elemIDOf (fst (mergeElements reason xs)))
   \<and> (\<forall>a \<in> set (fst (mergeElements reason xs)). \<forall>b \<in> set (fst (mergeElements reason xs)).
        a \<noteq> b \<longrightarrow> elemIDOf a \<noteq> elemIDOf b)"
proof -
  have d: "distinct (map elemIDOf (fst (mergeElements reason xs)))"
    by (simp add: mergeElements_ids gatherIDs_distinct)
  then have "inj_on elemIDOf (set (fst (mergeElements reason xs)))"
    by (simp add: distinct_map)
  with d show ?thesis by (auto dest: inj_onD)
qed

subsection \<open>The merger: defaults of an instance\<close>

lemma fieldDefault_precedence:
  "fieldDefault f =
     (case map_of (field_annotations f) DEFAULT of
        Some fd \<Rightarrow> Some fd
      | None \<Rightarrow> map_of (refAnnotations (field_type f)) DEFAULT)"
  by (simp add: fieldDefault_def split: option.splits)

lemma injectDefault_lookup:
  "map_of (injectDefault fds m v) n =
     (case map_of v n of
        Some present \<Rightarrow> Some present
      | None \<Rightarrow>
          (if n = m
           then (case map_of fds m of None \<Rightarrow> None | Some f \<Rightarrow> fieldDefault f)
           else None))"
  by (auto simp: injectDefault_def map_add_def split: option.splits)

lemma fold_injectDefault_lookup:
  "map_of (fold (injectDefault fds) ns v) n =
     (case map_of v n of
        Some present \<Rightarrow> Some present
      | None \<Rightarrow>
          (if n \<in> set ns
           then (case map_of fds n of None \<Rightarrow> None | Some f \<Rightarrow> fieldDefault f)
           else None))"
proof (induction ns arbitrary: v)
  case Nil
  then show ?case by (simp split: option.splits)
next
  case (Cons m ns)
  show ?case
    by (auto simp: Cons.IH injectDefault_lookup split: option.splits)
qed

lemma injectDefaults_lookup:
  "map_of (injectDefaults fds v) n =
     (case map_of v n of
        Some present \<Rightarrow> Some present
      | None \<Rightarrow> (case map_of fds n of None \<Rightarrow> None | Some f \<Rightarrow> fieldDefault f))"
proof -
  have "n \<notin> set (map fst fds) \<Longrightarrow> map_of fds n = None"
    by (simp add: map_of_eq_None_iff)
  then show ?thesis
    by (auto simp: injectDefaults_def fold_injectDefault_lookup split: option.splits)
qed

lemma map_filter_member:
  "y \<in> set (List.map_filter h zs) \<Longrightarrow> \<exists>z \<in> set zs. h z = Some y"
  by (auto simp: List.map_filter_def)

lemma mergeElements_member:
  assumes "e \<in> set (fst (mergeElements reason xs))"
  shows "\<exists>i errs. i \<in> set (gatherIDs xs) \<and> mergeGroup reason i (groupOf i xs) = (Some e, errs)"
proof -
  from assms obtain r where
    r: "r \<in> set (map (\<lambda>i. mergeGroup reason i (groupOf i xs)) (gatherIDs xs))" and
    e: "fst r = Some e"
    using map_filter_member by (fastforce simp: mergeElements_def Let_def)
  from r obtain i where "i \<in> set (gatherIDs xs)" "r = mergeGroup reason i (groupOf i xs)"
    by auto
  with e have "mergeGroup reason i (groupOf i xs) = (Some e, snd r)"
    by (metis prod.collapse)
  with \<open>i \<in> set (gatherIDs xs)\<close> show ?thesis by blast
qed

lemma mergeObjectDefinitions_kind:
  "mergeObjectDefinitions reason i decls = (Some e, errs) \<Longrightarrow> \<exists>ob. e = ObjectElem ob"
  by (auto simp: mergeObjectDefinitions_def Let_def split: list.splits prod.splits if_splits)

lemma mergeGroup_instance:
  assumes "mergeGroup reason i es = (Some (InstanceElem inst), errs)"
  shows "mergeInstanceDefinitions reason i (instancesOf es) = (Some (InstanceElem inst), errs)"
proof (cases es)
  case Nil
  with assms show ?thesis by (simp add: mergeGroup_def)
next
  case (Cons x rest)
  show ?thesis
  proof (cases x)
    case (ObjectElem ob)
    with Cons assms show ?thesis
      using mergeObjectDefinitions_kind by (fastforce simp: mergeGroup_def)
  next
    case (PrimitiveElem p)
    with Cons assms show ?thesis
      using mergePrimitives_member by (fastforce simp: mergeGroup_def)
  next
    case (InstanceElem j)
    with Cons assms show ?thesis by (simp add: mergeGroup_def)
  next
    case (VariableElem v)
    with Cons assms show ?thesis
      using mergeVariables_member by (fastforce simp: mergeGroup_def)
  qed
qed

lemma mergeInstanceDefinitions_hd:
  assumes "mergeInstanceDefinitions reason i insts = (Some e, errs)"
  shows "e = InstanceElem
             \<lparr>inst_id = i, inst_type = inst_type (hd insts),
              inst_value = injectDefaults (typeFields (inst_type (hd insts)))
                             (fst (mergeInstanceValues insts)),
              inst_annotations = fst (mergeInstanceAnnotations insts)\<rparr>"
  using assms
  by (cases insts) (auto simp: mergeInstanceDefinitions_def Let_def split: prod.splits)

lemma merged_instance_shape:
  assumes "InstanceElem inst \<in> set (fst (mergeElements reason xs))"
  shows "inst_value inst =
           injectDefaults (typeFields (inst_type inst)) (rawInstanceValue (inst_id inst) xs)"
proof -
  from assms obtain i errs where
    "mergeGroup reason i (groupOf i xs) = (Some (InstanceElem inst), errs)"
    using mergeElements_member by blast
  then have "mergeInstanceDefinitions reason i (instancesOf (groupOf i xs))
      = (Some (InstanceElem inst), errs)"
    by (rule mergeGroup_instance)
  then have "InstanceElem inst = InstanceElem
       \<lparr>inst_id = i, inst_type = inst_type (hd (instancesOf (groupOf i xs))),
        inst_value = injectDefaults (typeFields (inst_type (hd (instancesOf (groupOf i xs)))))
                       (fst (mergeInstanceValues (instancesOf (groupOf i xs)))),
        inst_annotations = fst (mergeInstanceAnnotations (instancesOf (groupOf i xs)))\<rparr>"
    by (rule mergeInstanceDefinitions_hd)
  then have "inst = \<lparr>inst_id = i, inst_type = inst_type (hd (instancesOf (groupOf i xs))),
        inst_value = injectDefaults (typeFields (inst_type (hd (instancesOf (groupOf i xs)))))
                       (fst (mergeInstanceValues (instancesOf (groupOf i xs)))),
        inst_annotations = fst (mergeInstanceAnnotations (instancesOf (groupOf i xs)))\<rparr>"
    by simp
  then have "inst_id inst = i"
    "inst_type inst = inst_type (hd (instancesOf (groupOf i xs)))"
    "inst_value inst = injectDefaults (typeFields (inst_type (hd (instancesOf (groupOf i xs)))))
                       (fst (mergeInstanceValues (instancesOf (groupOf i xs))))"
    by simp_all
  then show ?thesis by (simp add: rawInstanceValue_def groupOf_def)
qed

text \<open>
  C3. Let an instance of the merged output have an object type with a field \<open>f\<close> under
  the name \<open>n\<close>. A value that the merged instances give for \<open>n\<close> (a null value as
  well) is the value of the output. When they give none, the output has the default of
  the annotations of \<open>f\<close> itself if there is one, otherwise the default of the annotations
  of the declared type of \<open>f\<close> if there is one, and otherwise no value.
\<close>

theorem merged_instance_defaults:
  assumes "InstanceElem inst \<in> set (fst (mergeElements reason xs))"
    and "inst_type inst = ConcreteObject T"
    and "map_of (obj_fields T) n = Some f"
  shows "map_of (inst_value inst) n =
           (case map_of (rawInstanceValue (inst_id inst) xs) n of
              Some present \<Rightarrow> Some present
            | None \<Rightarrow>
                (case map_of (field_annotations f) DEFAULT of
                   Some fd \<Rightarrow> Some fd
                 | None \<Rightarrow> map_of (refAnnotations (field_type f)) DEFAULT))"
proof -
  have "inst_value inst = injectDefaults (obj_fields T) (rawInstanceValue (inst_id inst) xs)"
    using merged_instance_shape [OF assms(1)] assms(2) by simp
  then show ?thesis
    by (simp add: injectDefaults_lookup assms(3) fieldDefault_precedence split: option.splits)
qed

subsection \<open>The merger: the string form of an error\<close>

lemma formatted_new: "formatted (newMergeError reason k i)"
  by (simp add: formatted_def newMergeError_def)

lemma mergeFieldUpdate_formatted:
  assumes "\<forall>e \<in> set (mo_errors acc). formatted e"
  shows "\<forall>e \<in> set (mo_errors (mergeFieldUpdate reason i b0 nf acc)). formatted e"
  using assms
  by (cases nf)
    (auto simp: mergeFieldUpdate_def Let_def formatted_new split: option.splits prod.splits)

lemma fold_mergeFieldUpdate_formatted:
  "\<forall>e \<in> set (mo_errors acc). formatted e
   \<Longrightarrow> \<forall>e \<in> set (mo_errors (fold (mergeFieldUpdate reason i b0) fs acc)). formatted e"
proof (induction fs arbitrary: acc)
  case Nil
  then show ?case by simp
next
  case (Cons nf fs)
  have "\<forall>e \<in> set (mo_errors (mergeFieldUpdate reason i b0 nf acc)). formatted e"
    using Cons.prems by (rule mergeFieldUpdate_formatted)
  then have "\<forall>e \<in> set (mo_errors (fold (mergeFieldUpdate reason i b0) fs
      (mergeFieldUpdate reason i b0 nf acc))). formatted e"
    by (rule Cons.IH)
  then show ?case by simp
qed

lemma applyUpdate_formatted:
  assumes "\<forall>e \<in> set (mo_errors acc). formatted e"
  shows "\<forall>e \<in> set (mo_errors (applyUpdate reason i b0 u acc)). formatted e"
proof -
  have "\<forall>e \<in> set (mo_errors (fold (mergeFieldUpdate reason i b0) (obj_fields u) acc)). formatted e"
    using assms by (rule fold_mergeFieldUpdate_formatted)
  then show ?thesis
    by (auto simp: applyUpdate_def Let_def formatted_new split: prod.splits)
qed

lemma fold_applyUpdate_formatted:
  "\<forall>e \<in> set (mo_errors acc). formatted e
   \<Longrightarrow> \<forall>e \<in> set (mo_errors (fold (applyUpdate reason i b0) us acc)). formatted e"
proof (induction us arbitrary: acc)
  case Nil
  then show ?case by simp
next
  case (Cons u us)
  have "\<forall>e \<in> set (mo_errors (applyUpdate reason i b0 u acc)). formatted e"
    using Cons.prems by (rule applyUpdate_formatted)
  then have "\<forall>e \<in> set (mo_errors (fold (applyUpdate reason i b0) us
      (applyUpdate reason i b0 u acc))). formatted e"
    by (rule Cons.IH)
  then show ?case by simp
qed

lemma mergeObjectDefinitions_formatted:
  "\<forall>e \<in> set (snd (mergeObjectDefinitions reason i decls)). formatted e"
proof (cases "filter (\<lambda>ob. \<not> isUpdate ob) decls")
  case Nil
  then show ?thesis by (simp add: mergeObjectDefinitions_def formatted_new)
next
  case (Cons b bs)
  show ?thesis
  proof (cases bs)
    case Nil
    have "\<forall>e \<in> set (mo_errors (fold (applyUpdate reason i b) (filter isUpdate decls)
        \<lparr>mo_updates = [], mo_annotations = obj_annotations b,
         mo_annotation_types = obj_annotation_types b, mo_errors = []\<rparr>)). formatted e"
      by (rule fold_applyUpdate_formatted) simp
    with Cons Nil show ?thesis
      by (auto simp: mergeObjectDefinitions_def Let_def)
  next
    case (Cons c cs)
    with \<open>filter (\<lambda>ob. \<not> isUpdate ob) decls = b # bs\<close> show ?thesis
      by (simp add: mergeObjectDefinitions_def formatted_new)
  qed
qed

lemma mergeInstanceDefinitions_formatted:
  "\<forall>e \<in> set (snd (mergeInstanceDefinitions reason i insts)). formatted e"
  by (cases insts) (auto simp: mergeInstanceDefinitions_def Let_def formatted_new split: prod.splits)

lemma mergePrimitives_formatted:
  "\<forall>e \<in> set (snd (mergePrimitives reason i prims)). formatted e"
  by (auto simp: mergePrimitives_def formatted_new split: list.splits)

lemma mergeVariables_formatted:
  "\<forall>e \<in> set (snd (mergeVariables reason i vars)). formatted e"
  by (auto simp: mergeVariables_def formatted_new split: list.splits)

lemma mergeGroup_formatted:
  "\<forall>e \<in> set (snd (mergeGroup reason i es)). formatted e"
proof (cases es)
  case Nil
  then show ?thesis by (simp add: mergeGroup_def)
next
  case (Cons x rest)
  then show ?thesis
    using mergeObjectDefinitions_formatted mergeInstanceDefinitions_formatted
      mergePrimitives_formatted mergeVariables_formatted
    by (cases x) (simp_all add: mergeGroup_def)
qed

text \<open>
  C5. The string form of a merge error is \<open>Error merging <full_name>: <reason>\<close>, with
  the full name of the identifier the error carries; this holds for every error that
  \<open>mergeElements\<close> returns.
\<close>

theorem mergeError_toString:
  "toString (newMergeError reason k i) = ''Error merging '' @ getFullName i @ '': '' @ reason k i
   \<and> me_elemID (newMergeError reason k i) = i
   \<and> (\<forall>e \<in> set (snd (mergeElements reason xs)).
        toString e = ''Error merging '' @ getFullName (me_elemID e) @ '': '' @ me_error e)"
proof -
  have "\<forall>e \<in> set (snd (mergeElements reason xs)). formatted e"
    using mergeGroup_formatted by (auto simp: mergeElements_def Let_def)
  then show ?thesis
    by (simp add: toString_def newMergeError_def formatted_def)
qed

subsection \<open>The merger on the elements of its tests\<close>

lemmas merger_defs =
  mergeElements_def gatherIDs_def groupOf_def mergeGroup_def mergeObjectDefinitions_def
  applyUpdate_def mergeFieldUpdate_def mergeInstanceDefinitions_def mergeInstanceValues_def
  mergeInstanceAnnotations_def mergePrimitives_def mergeVariables_def injectDefaults_def
  injectDefault_def fieldDefault_def newMergeError_def createNestedID_def isUpdate_def
  isUpdateMarker_def lastPart_def DEFAULT_def UPDATE_DEFINITION_def rawInstanceValue_def
  toString_def putKey_def overlay_def updatesOf_def mergedField_def Let_def

lemmas merger_ex_defs =
  mk_id_def ex_reason_def updateType_def BuiltinSTRING_def baseElemID_def base_def
  unrelated_def update1_def update2_def updateAnno_def multipleUpdateAnno_def
  updateAnnoValues_def multipleUpdateAnnoValues_def multipleUpdate1_def missingUpdate_def
  multipleBase_def instanceElement_def instanceElement2_def mergedObject_def strType_def
  duplicateType_def nestedElemID_def nested_def insID_def ins1_def ins2_def
  shouldUseFieldDef_def shouldUseTypeDef_def conflicting_def recursiveElemID_def
  recursiveType_def recursiveInstance_def var1_def var2_def insNull_def mergedFieldDef_def
  mergedTypeDef_def mergedNull_def

text \<open>The model on the inputs of the tests: the merged elements and the errors they expect.\<close>

lemma test_no_updates:
  "mergeElements ex_reason [ObjectElem base, ObjectElem unrelated]
     = ([ObjectElem base, ObjectElem unrelated], [])"
  by (simp add: merger_defs merger_ex_defs)

lemma test_update_blocks:
  "mergeElements ex_reason
     [ObjectElem base, ObjectElem unrelated, ObjectElem update1, ObjectElem update2,
      ObjectElem updateAnno, ObjectElem updateAnnoValues]
     = ([ObjectElem mergedObject, ObjectElem unrelated], [])"
  by (simp add: merger_defs merger_ex_defs)

lemma test_elements_order:
  "mergeElements ex_reason
     [ObjectElem update1, ObjectElem updateAnno, ObjectElem base, ObjectElem unrelated,
      ObjectElem update2, ObjectElem updateAnnoValues]
     = ([ObjectElem mergedObject, ObjectElem unrelated], [])"
  by (simp add: merger_defs merger_ex_defs)

lemma test_error_kinds:
  "map me_kind (snd (mergeElements ex_reason
      [ObjectElem base, ObjectElem update1, ObjectElem multipleUpdate1]))
     = [DuplicateAnnotationFieldDefinitionError]"
  "map me_kind (snd (mergeElements ex_reason [ObjectElem base, ObjectElem missingUpdate]))
     = [NoBaseDefinitionMergeError]"
  "map me_kind (snd (mergeElements ex_reason
      [ObjectElem base, ObjectElem updateAnno, ObjectElem multipleUpdateAnno]))
     = [DuplicateAnnotationTypeError]"
  "map me_kind (snd (mergeElements ex_reason
      [ObjectElem base, ObjectElem updateAnnoValues, ObjectElem multipleUpdateAnnoValues]))
     = [DuplicateAnnotationError]"
  "map me_kind (snd (mergeElements ex_reason [ObjectElem base, ObjectElem multipleBase]))
     = [MultipleBaseDefinitionsMergeError]"
  "map me_kind (snd (mergeElements ex_reason [InstanceElem ins1, InstanceElem shouldUseFieldDef]))
     = [DuplicateInstanceKeyError]"
  "map me_kind (snd (mergeElements ex_reason [InstanceElem ins1, InstanceElem conflicting]))
     = [DuplicateAnnotationError]"
  "map me_kind (snd (mergeElements ex_reason [PrimitiveElem strType, PrimitiveElem duplicateType]))
     = [MultiplePrimitiveTypesUnsupportedError]"
  "map me_kind (snd (mergeElements ex_reason [VariableElem var1, VariableElem var1]))
     = [DuplicateVariableNameError]"
  by (simp_all add: merger_defs merger_ex_defs)

lemma test_placeholders:
  "length (fst (mergeElements ex_reason
      [ObjectElem base, ObjectElem unrelated, ObjectElem update1, ObjectElem update2,
       ObjectElem updateAnno, ObjectElem updateAnnoValues, InstanceElem instanceElement,
       InstanceElem instanceElement2])) = 4"
  "snd (mergeElements ex_reason
      [ObjectElem base, ObjectElem unrelated, ObjectElem update1, ObjectElem update2,
       ObjectElem updateAnno, ObjectElem updateAnnoValues, InstanceElem instanceElement,
       InstanceElem instanceElement2]) = []"
  by (simp_all add: merger_defs merger_ex_defs)

lemma test_type_defaults:
  "mergeElements ex_reason [InstanceElem shouldUseTypeDef, InstanceElem ins2]
     = ([InstanceElem mergedTypeDef], [])"
  by (simp add: merger_defs merger_ex_defs)

lemma test_recursive_and_variables:
  "length (fst (mergeElements ex_reason [InstanceElem recursiveInstance])) = 1"
  "snd (mergeElements ex_reason [InstanceElem recursiveInstance]) = []"
  "mergeElements ex_reason [VariableElem var1, VariableElem var2]
     = ([VariableElem var1, VariableElem var2], [])"
  by (simp_all add: merger_defs merger_ex_defs)

lemma ex_merge_field_def:
  "fst (mergeElements ex_reason [InstanceElem shouldUseFieldDef, InstanceElem ins2])
     = [InstanceElem mergedFieldDef]"
  by (simp add: merger_defs merger_ex_defs)

lemma ex_merge_null:
  "fst (mergeElements ex_reason [InstanceElem insNull]) = [InstanceElem mergedNull]"
  by (simp add: merger_defs merger_ex_defs)

theorem merged_instance_defaults_witness:
  "InstanceElem mergedFieldDef
     \<in> set (fst (mergeElements ex_reason [InstanceElem shouldUseFieldDef, InstanceElem ins2]))
   \<and> map_of (inst_value mergedFieldDef) ''field1'' = Some (VString ''field1'')
   \<and> map_of (inst_value mergedFieldDef) ''field2'' = Some (VString ''ins1'')
   \<and> InstanceElem mergedNull \<in> set (fst (mergeElements ex_reason [InstanceElem insNull]))
   \<and> map_of (inst_value mergedNull) ''field1'' = Some VNull
   \<and> map_of (inst_value mergedNull) ''field2'' = Some (VString ''type'')"
proof -
  have m1: "InstanceElem mergedFieldDef
      \<in> set (fst (mergeElements ex_reason [InstanceElem shouldUseFieldDef, InstanceElem ins2]))"
    by (simp add: ex_merge_field_def)
  have m2: "InstanceElem mergedNull \<in> set (fst (mergeElements ex_reason [InstanceElem insNull]))"
    by (simp add: ex_merge_null)
  have t1: "inst_type mergedFieldDef = ConcreteObject nested"
    by (simp add: mergedFieldDef_def)
  have t2: "inst_type mergedNull = ConcreteObject nested"
    by (simp add: mergedNull_def)
  have f1: "map_of (obj_fields nested) ''field1''
      = Some (Field nestedElemID ''field1'' (ConcretePrimitive strType)
                [(''_default'', VString ''field1'')])"
    by (simp add: nested_def)
  have f2: "map_of (obj_fields nested) ''field2''
      = Some (Field nestedElemID ''field2'' (ConcretePrimitive strType) [])"
    by (simp add: nested_def)
  from merged_instance_defaults [OF m1 t1 f1] merged_instance_defaults [OF m1 t1 f2]
    merged_instance_defaults [OF m2 t2 f1] merged_instance_defaults [OF m2 t2 f2] m1 m2
  show ?thesis
    by (simp add: mergedFieldDef_def mergedNull_def)
qed

lemma ex_merge_ids:
  "map (\<lambda>e. getFullName (elemIDOf e)) (fst (mergeElements ex_reason ex_elements))
     = [''salto.base'', ''salto.string'', ''salto.nested.instance.ins'', ''salto.nested'']"
  by (simp add: ex_elements_def merger_defs merger_ex_defs)

lemma ex_merge_errors:
  "map toString (snd (mergeElements ex_reason ex_elements))
     = [''Error merging salto.string: multiple primitive definitions'']"
  by (simp add: ex_elements_def merger_defs merger_ex_defs)

theorem mergeElements_one_per_ElemID_witness:
  "distinct (map elemIDOf (fst (mergeElements ex_reason ex_elements)))
   \<and> map (\<lambda>e. getFullName (elemIDOf e)) (fst (mergeElements ex_reason ex_elements))
       = [''salto.base'', ''salto.string'', ''salto.nested.instance.ins'', ''salto.nested'']"
  using mergeElements_one_per_ElemID [of ex_reason ex_elements] ex_merge_ids by simp

theorem mergeError_toString_witness:
  "map toString (snd (mergeElements ex_reason ex_elements))
     = [''Error merging salto.string: multiple primitive definitions'']
   \<and> map toString (snd (mergeElements ex_reason [ObjectElem base, ObjectElem missingUpdate]))
       = [''Error merging salto.base.field3: no base definition'']"
proof -
  have "map toString (snd (mergeElements ex_reason [ObjectElem base, ObjectElem missingUpdate]))
       = [''Error merging salto.base.field3: no base definition'']"
    by (simp add: merger_defs merger_ex_defs)
  with mergeError_toString [of ex_reason NoBaseDefinitionMergeError baseElemID ex_elements]
    ex_merge_errors
  show ?thesis by simp
qed

end
